theory Spec2Isabelle
  imports
    Main
    "HOL-Library.Char_ord"
    "HOL-Library.List_Lexorder"
    "HOL-Library.Product_Lexorder"
begin

section \<open>Python values shared by all modules\<close>

text \<open>
  The exceptions the modelled code can raise. \<open>KeyError\<close> is a subscript on a dict that
  lacks the key, \<open>ValueError\<close> is \<open>int()\<close> on text that is no number and
  \<open>time.sleep\<close> on a negative duration, \<open>RequestError\<close> is an exception of the HTTP
  library that reaches the caller.
\<close>

datatype py_error = KeyError | ValueError | RequestError

section \<open>gitlab\_api.py: the HTTP retry client\<close>

text \<open>
  What one \<open>requests.get\<close> can do: answer with a status code and a body, raise
  \<open>requests.exceptions.Timeout\<close>, or raise any other exception. \<open>response.json()\<close>
  either raises (\<open>Undecodable\<close>) or yields the decoded value; a decoded JSON \<open>null\<close> is
  Python's \<open>None\<close> (\<open>Decoded None\<close>).
\<close>

datatype 'a body = Undecodable | Decoded "'a option"

datatype 'a transport = Responded int "'a body" | TimedOut | TransportError

text \<open>
  The observable effects of one call of \<open>make_gitlab_request\<close>: how many HTTP requests
  were issued and which delays were slept, in order.
\<close>

record io =
  requests :: nat
  sleeps :: "int list"

text \<open>\<open>time.sleep\<close> raises \<open>ValueError\<close> on a negative duration.\<close>

definition sleep :: "int \<Rightarrow> io \<Rightarrow> py_error + io" where
  "sleep d s = (if d < 0 then Inl ValueError else Inr (s\<lparr>sleeps := sleeps s @ [d]\<rparr>))"

text \<open>How one iteration of the \<open>for attempt in range(max_retries)\<close> loop ends.\<close>

datatype 'a control = Continue | Return "'a option" | Raise py_error

text \<open>The handler \<open>except requests.exceptions.Timeout\<close>.\<close>

definition on_timeout :: "int \<Rightarrow> int \<Rightarrow> nat \<Rightarrow> io \<Rightarrow> 'a control \<times> io" where
  "on_timeout max_retries base_delay attempt s =
     (if int attempt < max_retries - 1
      then (case sleep (base_delay * 2 ^ attempt) s of
              Inl e \<Rightarrow> (Raise e, s)
            | Inr s' \<Rightarrow> (Continue, s'))
      else (Continue, s))"

text \<open>The handler \<open>except Exception\<close>.\<close>

definition on_exception :: "int \<Rightarrow> int \<Rightarrow> nat \<Rightarrow> io \<Rightarrow> 'a control \<times> io" where
  "on_exception max_retries base_delay attempt s =
     (if int attempt < max_retries - 1
      then (case sleep base_delay s of
              Inl e \<Rightarrow> (Raise e, s)
            | Inr s' \<Rightarrow> (Continue, s'))
      else (Continue, s))"

text \<open>
  The body of the loop, after \<open>requests.get\<close> has produced its outcome. An exception
  raised inside the \<open>try\<close> block (an undecodable body, a rejected sleep) is not a
  \<open>Timeout\<close> and lands in \<open>except Exception\<close>.
\<close>

definition attempt_body ::
  "int \<Rightarrow> int \<Rightarrow> nat \<Rightarrow> 'a transport \<Rightarrow> io \<Rightarrow> 'a control \<times> io" where
  "attempt_body max_retries base_delay attempt outcome s =
     (case outcome of
        Responded status_code b \<Rightarrow>
          if status_code = 200 then
            (case b of
               Decoded v \<Rightarrow> (Return v, s)
             | Undecodable \<Rightarrow> on_exception max_retries base_delay attempt s)
          else if status_code = 429 then
            (case sleep (base_delay * 2 ^ attempt + 5) s of
               Inr s' \<Rightarrow> (Continue, s')
             | Inl e \<Rightarrow> on_exception max_retries base_delay attempt s)
          else (Return None, s)
      | TimedOut \<Rightarrow> on_timeout max_retries base_delay attempt s
      | TransportError \<Rightarrow> on_exception max_retries base_delay attempt s)"

text \<open>
  The loop from iteration \<open>attempt\<close> on. \<open>net k\<close> is what the network does at the
  request of iteration \<open>k\<close>. Falling out of the loop returns \<open>None\<close>.
\<close>

function request_loop ::
  "int \<Rightarrow> int \<Rightarrow> (nat \<Rightarrow> 'a transport) \<Rightarrow> nat \<Rightarrow> io \<Rightarrow> (py_error + 'a option) \<times> io" where
  "request_loop max_retries base_delay net attempt s =
     (if int attempt < max_retries then
        (case attempt_body max_retries base_delay attempt (net attempt)
                (s\<lparr>requests := Suc (requests s)\<rparr>) of
           (Continue, s') \<Rightarrow> request_loop max_retries base_delay net (Suc attempt) s'
         | (Return r, s') \<Rightarrow> (Inr r, s')
         | (Raise e, s') \<Rightarrow> (Inl e, s'))
      else (Inr None, s))"
  by pat_completeness auto
termination
  by (relation "measure (\<lambda>(max_retries, base_delay, net, attempt, s). nat (max_retries - int attempt))")
     auto

declare request_loop.simps [simp del]

definition make_gitlab_request ::
  "int \<Rightarrow> int \<Rightarrow> (nat \<Rightarrow> 'a transport) \<Rightarrow> (py_error + 'a option) \<times> io" where
  "make_gitlab_request max_retries base_delay net =
     request_loop max_retries base_delay net 0 \<lparr>requests = 0, sleeps = []\<rparr>"

text \<open>The call as every caller in the repository makes it: the defaults 3 and 1.\<close>

definition gitlab_get :: "(nat \<Rightarrow> 'a transport) \<Rightarrow> (py_error + 'a option) \<times> io" where
  "gitlab_get net = make_gitlab_request 3 1 net"

section \<open>gitlab\_api.py: the status resolvers\<close>

text \<open>
  Decoded response bodies are dicts whose values have the types of the upstream API. Every
  key the source reads is an optional field, \<open>None\<close> when the dict lacks the key:
  \<open>.get\<close> then yields its default, a test with \<open>in\<close> fails, and a subscript is the
  \<open>KeyError\<close> branch of the model. (For \<open>has_conflicts\<close> and \<open>head_pipeline\<close>,
  which the source tests for truth, \<open>None\<close> also stands for a \<open>null\<close>.) Field names
  carry a prefix where two dicts share a key: \<open>rule_name\<close> is \<open>rule['name']\<close>,
  \<open>pl_status\<close> is \<open>pipeline['status']\<close>.
\<close>

record approval_rule =
  rule_name :: "string option"

record approvals_data =
  approval_rules_left :: "approval_rule list option"
  approved :: "bool option"

record approval_status =
  approved_by_all :: "bool option"
  approved_except_coverage :: "bool option"
  needs_coverage_check :: "bool option"

text \<open>\<open>d.get(k, default)\<close> on an optional field.\<close>

definition get_or :: "'a \<Rightarrow> 'a option \<Rightarrow> 'a" where
  "get_or dflt v = (case v of None \<Rightarrow> dflt | Some x \<Rightarrow> x)"

text \<open>
  The loop \<open>for rule in approval_rules\<close> over the pair
  \<open>(needs_coverage_check, needs_other_approval)\<close>.
\<close>

fun classify_rules :: "approval_rule list \<Rightarrow> bool \<times> bool \<Rightarrow> bool \<times> bool" where
  "classify_rules [] flags = flags"
| "classify_rules (rule # rules) (cov, other) =
     (if get_or [] (rule_name rule) = ''Coverage-Check''
      then classify_rules rules (True, other)
      else classify_rules rules (cov, True))"

definition get_approval_status ::
  "(nat \<Rightarrow> approvals_data transport) \<Rightarrow> py_error + approval_status" where
  "get_approval_status net =
     (case fst (gitlab_get net) of
        Inl e \<Rightarrow> Inl e
      | Inr (Some data) \<Rightarrow>
          (let approval_rules = get_or [] (approval_rules_left data);
               (cov, other) = classify_rules approval_rules (False, False);
               by_all = get_or False (approved data)
           in Inr \<lparr>approved_by_all = Some by_all,
                   approved_except_coverage = Some ((\<not> other) \<and> (\<not> by_all \<or> cov)),
                   needs_coverage_check = Some cov\<rparr>)
      | Inr None \<Rightarrow>
          Inr \<lparr>approved_by_all = Some False,
               approved_except_coverage = Some False,
               needs_coverage_check = Some False\<rparr>)"

record head_ref =
  head_id :: "int option"

record mr_detail =
  merge_status :: "string option"
  detailed_merge_status :: "string option"
  has_conflicts :: "bool option"
  sha :: "string option"
  source_branch :: "string option"
  head_pipeline :: "head_ref option"

definition get_merge_status :: "(nat \<Rightarrow> mr_detail transport) \<Rightarrow> py_error + string" where
  "get_merge_status net =
     (case fst (gitlab_get net) of
        Inl e \<Rightarrow> Inl e
      | Inr (Some mr_data) \<Rightarrow>
          (if detailed_merge_status mr_data = Some ''conflict''
              \<or> merge_status mr_data = Some ''cannot_be_merged''
              \<or> get_or False (has_conflicts mr_data)
           then Inr ''CONFLICT''
           else Inr [])
      | Inr None \<Rightarrow> Inr [])"

record pipeline =
  pl_id :: "int option"
  pl_status :: "string option"
  pl_web_url :: "string option"

text \<open>
  The three endpoints \<open>get_pipeline_status\<close> can query, each with the network's
  behaviour at its successive attempts; the pipeline endpoint depends on the id asked for.
\<close>

record gitlab =
  pipelines_by_sha :: "nat \<Rightarrow> pipeline list transport"
  merge_request :: "nat \<Rightarrow> mr_detail transport"
  pipeline_by_id :: "int \<Rightarrow> nat \<Rightarrow> pipeline transport"

datatype endpoint = PipelinesBySha | MergeRequest | PipelineById int

text \<open>The values stored in the \<open>debug_info\<close> dict, kept in insertion order.\<close>

datatype debug_value = DInt int | DStr "string option" | DBool bool

type_synonym debug_info = "(string \<times> debug_value) list"

type_synonym pipeline_result = "string option \<times> string option \<times> debug_info"

text \<open>
  The second half of \<open>get_pipeline_status\<close>, from \<open>if mr_iid:\<close> on. It returns the
  result or the exception, and the endpoints it queried.
\<close>

definition head_pipeline_fallback ::
  "gitlab \<Rightarrow> int option \<Rightarrow> debug_info \<Rightarrow> (py_error + pipeline_result) \<times> endpoint list" where
  "head_pipeline_fallback g mr_iid debug =
     (let failed = Inr (None, None, debug @ [(''all_requests_failed'', DBool True)]) in
      if mr_iid = None \<or> mr_iid = Some 0 then (failed, [])
      else
        (case fst (gitlab_get (merge_request g)) of
           Inl e \<Rightarrow> (Inl e, [MergeRequest])
         | Inr None \<Rightarrow> (failed, [MergeRequest])
         | Inr (Some mr_data) \<Rightarrow>
             (let debug1 = debug @ [(''mr_head_sha'', DStr (sha mr_data)),
                                    (''mr_source_branch'', DStr (source_branch mr_data))];
                  no_head = Inr (None, None,
                                 debug1 @ [(''no_head_pipeline'', DBool True),
                                           (''all_requests_failed'', DBool True)])
              in case head_pipeline mr_data of
                   None \<Rightarrow> (no_head, [MergeRequest])
                 | Some head \<Rightarrow>
                     (case head_id head of
                        None \<Rightarrow> (Inl KeyError, [MergeRequest])
                      | Some pipeline_id \<Rightarrow>
                          (case fst (gitlab_get (pipeline_by_id g pipeline_id)) of
                             Inl e \<Rightarrow> (Inl e, [MergeRequest, PipelineById pipeline_id])
                           | Inr None \<Rightarrow> (no_head, [MergeRequest, PipelineById pipeline_id])
                           | Inr (Some pipeline_data) \<Rightarrow>
                               (case (pl_status pipeline_data, pl_web_url pipeline_data) of
                                  (Some st, Some url) \<Rightarrow>
                                    (Inr (Some st, Some url,
                                          debug1 @ [(''head_pipeline_status'', DStr (Some st))]),
                                     [MergeRequest, PipelineById pipeline_id])
                                | _ \<Rightarrow> (Inl KeyError,
                                        [MergeRequest, PipelineById pipeline_id])))))))"

definition get_pipeline_status ::
  "gitlab \<Rightarrow> int option \<Rightarrow> (py_error + pipeline_result) \<times> endpoint list" where
  "get_pipeline_status g mr_iid =
     (case fst (gitlab_get (pipelines_by_sha g)) of
        Inl e \<Rightarrow> (Inl e, [PipelinesBySha])
      | Inr None \<Rightarrow>
          (let (res, qs) = head_pipeline_fallback g mr_iid [] in (res, PipelinesBySha # qs))
      | Inr (Some pipelines_data) \<Rightarrow>
          (let debug = [(''pipelines_count'', DInt (int (length pipelines_data)))] in
           case pipelines_data of
             latest_pipeline # _ \<Rightarrow>
               (case (pl_status latest_pipeline, pl_id latest_pipeline,
                      pl_web_url latest_pipeline) of
                  (Some st, Some i, Some url) \<Rightarrow>
                    (Inr (Some st, Some url,
                          debug @ [(''latest_pipeline_status'', DStr (Some st)),
                                   (''latest_pipeline_id'', DInt i)]),
                     [PipelinesBySha])
                | _ \<Rightarrow> (Inl KeyError, [PipelinesBySha]))
           | [] \<Rightarrow>
               (let (res, qs) = head_pipeline_fallback g mr_iid
                                  (debug @ [(''pipelines_empty'', DBool True)])
                in (res, PipelinesBySha # qs))))"

section \<open>mr\_model.py: the list of display entries\<close>

text \<open>
  An entry is the dict the list view shows. Only the keys \<open>repo\<close>, \<open>mr\<close> and
  \<open>key\<close> are read or written by the model's update path; the other display fields
  (title, status pills, URLs, branch) ride along in the record's extension. A field is
  \<open>None\<close> when the dict lacks the key. Entries are values: the controller builds fresh
  dicts for every call.
\<close>

record entry =
  repo :: "string option"
  mr :: "string option"
  key :: "string option"

subsection \<open>\<open>int()\<close> on text\<close>

text \<open>
  \<open>int(s)\<close> in base 10 on ASCII text: whitespace around the number is dropped, one sign is
  allowed, digits may be separated by single underscores, anything else raises
  \<open>ValueError\<close>. (Digits and spaces outside ASCII, and the interpreter's optional cap on
  the number of digits, are outside the model.)
\<close>

definition is_c_space :: "char \<Rightarrow> bool" where
  "is_c_space c = (let n = (of_char c :: nat) in (9 \<le> n \<and> n \<le> 13) \<or> n = 32)"

definition is_digit :: "char \<Rightarrow> bool" where
  "is_digit c = (let n = (of_char c :: nat) in 48 \<le> n \<and> n \<le> 57)"

definition digit_value :: "char \<Rightarrow> nat" where
  "digit_value c = of_char c - 48"

text \<open>The digits after the first one, with the value read so far.\<close>

fun digits_value :: "nat \<Rightarrow> string \<Rightarrow> nat option" where
  "digits_value acc [] = Some acc"
| "digits_value acc (c # cs) =
     (if is_digit c then digits_value (acc * 10 + digit_value c) cs
      else if c = CHR ''_'' then
        (case cs of
           [] \<Rightarrow> None
         | d # ds \<Rightarrow> if is_digit d then digits_value (acc * 10 + digit_value d) ds else None)
      else None)"

definition unsigned_value :: "string \<Rightarrow> nat option" where
  "unsigned_value s =
     (case s of
        [] \<Rightarrow> None
      | c # cs \<Rightarrow> if is_digit c then digits_value (digit_value c) cs else None)"

definition py_int :: "string \<Rightarrow> py_error + int" where
  "py_int s =
     (let t = rev (dropWhile is_c_space (rev (dropWhile is_c_space s))) in
      case t of
        [] \<Rightarrow> Inl ValueError
      | c # cs \<Rightarrow>
          if c = CHR ''-'' then
            (case unsigned_value cs of None \<Rightarrow> Inl ValueError | Some n \<Rightarrow> Inr (- int n))
          else if c = CHR ''+'' then
            (case unsigned_value cs of None \<Rightarrow> Inl ValueError | Some n \<Rightarrow> Inr (int n))
          else
            (case unsigned_value t of None \<Rightarrow> Inl ValueError | Some n \<Rightarrow> Inr (int n)))"

subsection \<open>The sort key\<close>

text \<open>
  \<open>int(x.get('mr', '!0')[1:] or 0)\<close>: the label without its first character; an empty
  rest is replaced by the number 0 before \<open>int\<close> sees it.
\<close>

definition mr_number :: "'a entry_scheme \<Rightarrow> py_error + int" where
  "mr_number x =
     (let rest = drop 1 (get_or ''!0'' (mr x)) in
      if rest = [] then Inr 0 else py_int rest)"

text \<open>
  The position of an entry in the order \<open>(repo, numeric mr)\<close>, with a number that
  \<open>int\<close> rejects counted as 0. Pairs compare lexicographically, text compares
  character by character, as Python's tuples and strings do.
\<close>

definition sort_rank :: "'a entry_scheme \<Rightarrow> string \<times> int" where
  "sort_rank x =
     (get_or [] (repo x), case mr_number x of Inr n \<Rightarrow> n | Inl _ \<Rightarrow> 0)"

text \<open>
  \<open>_sort_data\<close>: \<open>list.sort\<close> computes every key first; if one raises, the list is
  left as it was and the exception leaves the method; otherwise the sort is stable.
\<close>

definition sort_data :: "'a entry_scheme list \<Rightarrow> py_error option \<times> 'a entry_scheme list" where
  "sort_data xs =
     (if xs = [] then (None, xs)
      else if list_ex (\<lambda>x. isl (mr_number x)) xs then (Some ValueError, xs)
      else (None, sort_key sort_rank xs))"

subsection \<open>Replacing a repository's entries\<close>

text \<open>
  \<open>clear_repo\<close>: the \<open>while\<close> loop deletes matching entries in place; the subscript
  \<open>self._data[i]['repo']\<close> raises at the first entry without a \<open>repo\<close>, with the
  deletions made so far kept.
\<close>

fun clear_repo :: "string \<Rightarrow> 'a entry_scheme list \<Rightarrow> py_error option \<times> 'a entry_scheme list" where
  "clear_repo repo_name [] = (None, [])"
| "clear_repo repo_name (x # xs) =
     (case repo x of
        None \<Rightarrow> (Some KeyError, x # xs)
      | Some r \<Rightarrow>
          if r = repo_name then clear_repo repo_name xs
          else (let (err, rest) = clear_repo repo_name xs in (err, x # rest)))"

text \<open>
  The loop \<open>for new_item in new_items\<close>: every item gets its \<open>key\<close> and is appended;
  \<open>new_item['mr']\<close> raises at the first item without an \<open>mr\<close>.
\<close>

fun append_items ::
  "string \<Rightarrow> 'a entry_scheme list \<Rightarrow> 'a entry_scheme list \<Rightarrow> py_error option \<times> 'a entry_scheme list" where
  "append_items repo_name [] data = (None, data)"
| "append_items repo_name (new_item # new_items) data =
     (case mr new_item of
        None \<Rightarrow> (Some KeyError, data)
      | Some label \<Rightarrow>
          append_items repo_name new_items
            (data @ [new_item\<lparr>key := Some (repo_name @ ''-'' @ label)\<rparr>]))"

text \<open>
  \<open>update_repo_data\<close> on the list \<open>data\<close>. The dict \<open>existing_items\<close> that the method
  builds first is never read and building it cannot raise. The result is the exception that
  left the method, if any, and the list as the method left it.
\<close>

definition update_repo_data ::
  "string \<Rightarrow> 'a entry_scheme list \<Rightarrow> 'a entry_scheme list \<Rightarrow> py_error option \<times> 'a entry_scheme list" where
  "update_repo_data repo_name new_items data =
     (case clear_repo repo_name data of
        (Some e, data1) \<Rightarrow> (Some e, data1)
      | (None, data1) \<Rightarrow>
          (case append_items repo_name new_items data1 of
             (Some e, data2) \<Rightarrow> (Some e, data2)
           | (None, data2) \<Rightarrow> sort_data data2))"

text \<open>
  A sequence of calls on a model that starts with \<open>data\<close>, and the outcome of each
  call: the exception that left it, if any, and the list after it. A call that raises
  leaves the list as it was at the raise; the next call works on that.
\<close>

fun outcomes_after ::
  "'a entry_scheme list \<Rightarrow> (string \<times> 'a entry_scheme list) list
     \<Rightarrow> (py_error option \<times> 'a entry_scheme list) list" where
  "outcomes_after data [] = []"
| "outcomes_after data ((repo_name, new_items) # calls) =
     (let outcome = update_repo_data repo_name new_items data
      in outcome # outcomes_after (snd outcome) calls)"

text \<open>The identity of an entry: its \<open>(repo, mr)\<close> pair.\<close>

definition entry_id :: "'a entry_scheme \<Rightarrow> string option \<times> string option" where
  "entry_id x = (repo x, mr x)"

text \<open>
  A well-formed call: every new entry names the repository of the call and has a label
  whose number \<open>int\<close> accepts, and no two new entries share a label. The controller's
  calls are of this kind when the upstream list names every merge request once.
\<close>

definition well_formed_call :: "string \<times> 'a entry_scheme list \<Rightarrow> bool" where
  "well_formed_call call =
     (case call of (repo_name, new_items) \<Rightarrow>
        list_all (\<lambda>x. repo x = Some repo_name \<and> mr x \<noteq> None \<and> \<not> isl (mr_number x)) new_items
        \<and> distinct (map mr new_items))"

section \<open>mr\_notifier.py: the notification gate\<close>

subsection \<open>Dates and text\<close>

text \<open>
  \<open>date.today().isoformat()\<close> is \<open>YYYY-MM-DD\<close>; a Python date has a year below 10000,
  a month below 13 and a day below 32, so four and two decimal digits render it.
\<close>

record date =
  year :: nat
  month :: nat
  day :: nat

definition digit_char :: "nat \<Rightarrow> char" where
  "digit_char n = ''0123456789'' ! (n mod 10)"

definition isoformat :: "date \<Rightarrow> string" where
  "isoformat d =
     [digit_char (year d div 1000), digit_char (year d div 100),
      digit_char (year d div 10), digit_char (year d)]
     @ ''-'' @ [digit_char (month d div 10), digit_char (month d)]
     @ ''-'' @ [digit_char (day d div 10), digit_char (day d)]"

text \<open>\<open>str.strip()\<close>: the ASCII characters Python's \<open>str\<close> counts as whitespace.\<close>

definition is_space :: "char \<Rightarrow> bool" where
  "is_space c = (let n = (of_char c :: nat) in (9 \<le> n \<and> n \<le> 13) \<or> (28 \<le> n \<and> n \<le> 32))"

definition strip :: "string \<Rightarrow> string" where
  "strip s = rev (dropWhile is_space (rev (dropWhile is_space s)))"

text \<open>\<open>str(n)\<close> for an integer, as the f-string of the key formats it.\<close>

fun str_nat :: "nat \<Rightarrow> string" where
  "str_nat n = (if n < 10 then [digit_char n] else str_nat (n div 10) @ [digit_char n])"

declare str_nat.simps [simp del]

definition str_int :: "int \<Rightarrow> string" where
  "str_int i = (if i < 0 then ''-'' @ str_nat (nat (- i)) else str_nat (nat i))"

text \<open>\<open>", ".join(xs)\<close>.\<close>

fun join_comma :: "string list \<Rightarrow> string" where
  "join_comma [] = []"
| "join_comma [x] = x"
| "join_comma (x # y # ys) = x @ '', '' @ join_comma (y # ys)"

subsection \<open>The record handed to the gate\<close>

text \<open>
  \<open>mr_data\<close> is a dict with optional keys. \<open>mr_json\<close> is \<open>mr_data['mr']\<close>, the merge
  request as the API returned it, and \<open>approval\<close> is \<open>mr_data['approval_status']\<close>
  (the names \<open>mr\<close> and \<open>approval_status\<close> are taken above).
  \<open>pipeline_status = None\<close> stands for a key that is absent or holds \<open>None\<close>: both
  make \<open>_check_and_add_coverage_reviewers\<close> return \<open>False\<close>.
\<close>

record merge_request_json =
  iid :: "int option"
  web_url :: "string option"

record mr_data =
  repo_name :: "string option"
  mr_json :: "merge_request_json option"
  project_id :: "int option"
  approval :: "approval_status option"
  pipeline_status :: "string option"

subsection \<open>The notifier's state and its surroundings\<close>

text \<open>
  What the notifier does to the world, in the order it does it: a marker write (file,
  text, whether the write went through), a call of \<open>_send_slack_message\<close> (message,
  the value it returned), a call of \<open>add_reviewers_to_mr\<close> (project, iid, result).
\<close>

datatype event =
    WriteMarker string string bool
  | SendMessage string bool
  | AddReviewers int int bool

text \<open>
  The notifier and the files under its state directory: the marker files (name to text),
  the in-memory person cache (a cached \<open>None\<close> is a remembered miss), the Slack token
  read at construction, and the effects so far. The copy of the cache on disk is written
  after every change and never read again, and a failed save is only logged.
\<close>

record world =
  files :: "string \<rightharpoonup> string"
  person_cache :: "string \<rightharpoonup> string option"
  slack_token :: "string option"
  trace :: "event list"

text \<open>How the lookup of a person in \<open>users.list\<close> ends.\<close>

datatype lookup = Found string | NotFound | LookupFailed

text \<open>
  What the surroundings do during one evaluation: the date, which marker files fail to
  read and to write (a write that fails is an \<open>open\<close> that fails: the file stays as it
  was), and what the network makes of the calls that leave the notifier: the value of
  \<open>add_reviewers_to_mr\<close>, the value or the exception of
  \<open>get_mr_assignees_and_approvals\<close>, how the search of \<open>users.list\<close> for a name
  ends, and whether \<open>chat.postMessage\<close> confirms a message (status 200 and \<open>ok\<close>).
\<close>

record env =
  today :: date
  read_fails :: "string \<Rightarrow> bool"
  write_fails :: "string \<Rightarrow> bool"
  add_reviewers_to_mr :: bool
  get_mr_assignees_and_approvals :: "py_error + (string list \<times> string list)"
  users_list :: "string \<Rightarrow> lookup"
  post_message :: "string \<Rightarrow> bool"

subsection \<open>The marker\<close>

definition get_notification_date_file :: "string \<Rightarrow> string" where
  "get_notification_date_file mr_key =
     ''notified_''
     @ map (\<lambda>c. if c = CHR ''/'' \<or> c = CHR ''!'' then CHR ''_'' else c) mr_key
     @ ''.date''"

definition should_notify :: "env \<Rightarrow> world \<Rightarrow> string \<Rightarrow> bool" where
  "should_notify e w mr_key =
     (let date_file = get_notification_date_file mr_key in
      case files w date_file of
        None \<Rightarrow> True
      | Some text \<Rightarrow>
          if read_fails e date_file then True
          else strip text \<noteq> isoformat (today e))"

text \<open>
  \<open>_mark_notified\<close>: the write, and a read back that is only logged. Every exception
  is caught and logged.
\<close>

definition mark_notified :: "env \<Rightarrow> world \<Rightarrow> string \<Rightarrow> world" where
  "mark_notified e w mr_key =
     (let date_file = get_notification_date_file mr_key;
          today_text = isoformat (today e)
      in if write_fails e date_file
         then w\<lparr>trace := trace w @ [WriteMarker date_file today_text False]\<rparr>
         else w\<lparr>files := (files w)(date_file \<mapsto> today_text),
                trace := trace w @ [WriteMarker date_file today_text True]\<rparr>)"

subsection \<open>The message\<close>

definition truthy :: "string option \<Rightarrow> bool" where
  "truthy v = (case v of None \<Rightarrow> False | Some s \<Rightarrow> s \<noteq> [])"

definition get_slack_user_id :: "env \<Rightarrow> string \<Rightarrow> world \<Rightarrow> string option \<times> world" where
  "get_slack_user_id e person_name w =
     (case person_cache w person_name of
        Some cached \<Rightarrow> (cached, w)
      | None \<Rightarrow>
          if \<not> truthy (slack_token w) then (None, w)
          else
            (case users_list e person_name of
               Found user_id \<Rightarrow>
                 (Some user_id, w\<lparr>person_cache := (person_cache w)(person_name \<mapsto> Some user_id)\<rparr>)
             | NotFound \<Rightarrow>
                 (None, w\<lparr>person_cache := (person_cache w)(person_name \<mapsto> None)\<rparr>)
             | LookupFailed \<Rightarrow> (None, w)))"

text \<open>The loop \<open>for assignee in assignees\<close> of \<open>_format_notification_message\<close>.\<close>

fun assignee_mentions :: "env \<Rightarrow> string list \<Rightarrow> world \<Rightarrow> string list \<times> world" where
  "assignee_mentions e [] w = ([], w)"
| "assignee_mentions e (assignee # assignees) w =
     (let (slack_user_id, w1) = get_slack_user_id e assignee w;
          mention = (case slack_user_id of
                       None \<Rightarrow> assignee
                     | Some user_id \<Rightarrow>
                         if user_id \<noteq> [] then ''<@'' @ user_id @ ''>'' else assignee);
          (mentions, w2) = assignee_mentions e assignees w1
      in (mention # mentions, w2))"

definition format_notification_message ::
  "env \<Rightarrow> mr_data \<Rightarrow> string list \<Rightarrow> world \<Rightarrow> py_error + (string \<times> world)" where
  "format_notification_message e d assignees w =
     (case mr_json d of
        None \<Rightarrow> Inl KeyError
      | Some m \<Rightarrow>
          (case web_url m of
             None \<Rightarrow> Inl KeyError
           | Some mr_url \<Rightarrow>
               (let (mentions, w') = assignee_mentions e assignees w;
                    text = (if mentions \<noteq> [] then join_comma mentions else ''reviewers'')
                in Inr (''Please review '' @ text @ '': '' @ mr_url @ '' (ty)'', w'))))"

definition send_slack_message :: "env \<Rightarrow> string \<Rightarrow> world \<Rightarrow> bool \<times> world" where
  "send_slack_message e message w =
     (let sent = truthy (slack_token w) \<and> post_message e message
      in (sent, w\<lparr>trace := trace w @ [SendMessage message sent]\<rparr>))"

subsection \<open>Coverage reviewers\<close>

definition check_and_add_coverage_reviewers ::
  "env \<Rightarrow> int \<Rightarrow> int \<Rightarrow> mr_data \<Rightarrow> world \<Rightarrow> bool \<times> world" where
  "check_and_add_coverage_reviewers e project mr_iid d w =
     (case (approval d, pipeline_status d) of
        (Some approval_status, Some status) \<Rightarrow>
          if status = ''success''
             \<and> get_or False (approved_except_coverage approval_status)
             \<and> get_or False (needs_coverage_check approval_status)
          then (add_reviewers_to_mr e,
                w\<lparr>trace := trace w @ [AddReviewers project mr_iid (add_reviewers_to_mr e)]\<rparr>)
          else (False, w)
      | _ \<Rightarrow> (False, w))"

subsection \<open>The gate\<close>

definition mr_key_of :: "mr_data \<Rightarrow> int \<Rightarrow> string" where
  "mr_key_of d mr_iid = get_or ''unknown'' (repo_name d) @ ''-'' @ str_int mr_iid"

text \<open>
  \<open>process_mr_for_notification\<close>. The whole body sits in one \<open>try\<close>: every exception
  (a missing key, a failed fetch of the assignees) ends the evaluation with \<open>False\<close> and
  the world as it was at the raise.
\<close>

definition process_mr_for_notification :: "env \<Rightarrow> mr_data \<Rightarrow> world \<Rightarrow> bool \<times> world" where
  "process_mr_for_notification e d w =
     (case mr_json d of
        None \<Rightarrow> (False, w)
      | Some m \<Rightarrow>
     (case iid m of
        None \<Rightarrow> (False, w)
      | Some mr_iid \<Rightarrow>
     (let mr_key = mr_key_of d mr_iid in
      if \<not> should_notify e w mr_key then (False, w)
      else
     (case project_id d of
        None \<Rightarrow> (False, w)
      | Some project \<Rightarrow>
      if (case approval d of
            None \<Rightarrow> False
          | Some approval_status \<Rightarrow> get_or False (approved_by_all approval_status))
      then (False, mark_notified e w mr_key)
      else
     (let w1 = snd (check_and_add_coverage_reviewers e project mr_iid d w) in
      case get_mr_assignees_and_approvals e of
        Inl err \<Rightarrow> (False, w1)
      | Inr (assignees, approved_users) \<Rightarrow>
     (let pending_reviewers = filter (\<lambda>assignee. assignee \<notin> set approved_users) assignees in
      if assignees = [] then (False, mark_notified e w1 mr_key)
      else if pending_reviewers = [] then (False, mark_notified e w1 mr_key)
      else
     (case format_notification_message e d pending_reviewers w1 of
        Inl err \<Rightarrow> (False, w1)
      | Inr (message, w2) \<Rightarrow>
     (case send_slack_message e message w2 of
        (True, w3) \<Rightarrow> (True, mark_notified e w3 mr_key)
      | (False, w3) \<Rightarrow> (False, w3)))))))))"

text \<open>The messages that Slack confirmed, oldest first.\<close>

definition sent_messages :: "world \<Rightarrow> string list" where
  "sent_messages w = concat (map (\<lambda>ev. case ev of SendMessage m True \<Rightarrow> [m] | _ \<Rightarrow> []) (trace w))"

text \<open>The effects that an evaluation added to the trace of \<open>w\<close>, given the world after it.\<close>

definition new_events :: "world \<Rightarrow> world \<Rightarrow> event list" where
  "new_events w w' = drop (length (trace w)) (trace w')"

definition is_marker_write :: "event \<Rightarrow> bool" where
  "is_marker_write ev = (case ev of WriteMarker _ _ _ \<Rightarrow> True | _ \<Rightarrow> False)"

section \<open>Notions used in the proofs\<close>

text \<open>The effects that are calls of \<open>add_reviewers_to_mr\<close>.\<close>

definition is_add_reviewers :: "event \<Rightarrow> bool" where
  "is_add_reviewers ev = (case ev of AddReviewers _ _ _ \<Rightarrow> True | _ \<Rightarrow> False)"

text \<open>
  The shapes an evaluation can take: it ends without touching the marker and without
  sending; or it is past the marker check with a project id, and then it writes the marker
  without sending, or its send fails and it stops, or its send is confirmed and it writes
  the marker next. Before that it may have asked for coverage reviewers.
\<close>

definition outcome_shape :: "env \<Rightarrow> mr_data \<Rightarrow> world \<Rightarrow> bool \<Rightarrow> world \<Rightarrow> event list \<Rightarrow> bool" where
  "outcome_shape e d w r w' adds =
     (list_all is_add_reviewers adds \<and> slack_token w' = slack_token w \<and>
     ((\<not> r \<and> trace w' = trace w @ adds \<and> files w' = files w)
      \<or> (\<exists>m i. mr_json d = Some m \<and> iid m = Some i
            \<and> should_notify e w (mr_key_of d i) \<and> project_id d \<noteq> None
            \<and> ((\<not> r
                 \<and> trace w' = trace w @ adds
                      @ [WriteMarker (get_notification_date_file (mr_key_of d i))
                           (isoformat (today e))
                           (\<not> write_fails e (get_notification_date_file (mr_key_of d i)))]
                 \<and> files w' = files (mark_notified e w (mr_key_of d i)))
               \<or> (\<exists>message. \<not> r
                     \<and> trace w' = trace w @ adds @ [SendMessage message False]
                     \<and> files w' = files w)
               \<or> (\<exists>message. r
                     \<and> trace w' = trace w @ adds
                          @ [SendMessage message True,
                             WriteMarker (get_notification_date_file (mr_key_of d i))
                               (isoformat (today e))
                               (\<not> write_fails e (get_notification_date_file (mr_key_of d i)))]
                     \<and> files w' = files (mark_notified e w (mr_key_of d i)))))))"

text \<open>
  What the list of a model satisfies between well-formed calls: every entry has a
  \<open>repo\<close> and an \<open>mr\<close> with a number, no two entries share \<open>(repo, mr)\<close>, and the list
  is in order.
\<close>

definition tidy :: "'a entry_scheme list \<Rightarrow> bool" where
  "tidy data =
     ((\<forall>x\<in>set data. repo x \<noteq> None \<and> mr x \<noteq> None \<and> \<not> isl (mr_number x))
      \<and> distinct (map entry_id data) \<and> sorted (map sort_rank data))"

section \<open>Example inputs\<close>

subsection \<open>Networks\<close>

text \<open>A timeout, then status 404.\<close>

definition timeout_then_404 :: "nat \<Rightarrow> unit transport" where
  "timeout_then_404 k = (if k = 0 then TimedOut else Responded 404 Undecodable)"


text \<open>Every request times out.\<close>

definition always_timeout :: "nat \<Rightarrow> 'a transport" where
  "always_timeout k = TimedOut"

text \<open>Every request is answered with status 200 and the given body.\<close>

definition always_ok :: "'a \<Rightarrow> nat \<Rightarrow> 'a transport" where
  "always_ok v k = Responded 200 (Decoded (Some v))"

subsection \<open>Responses\<close>

text \<open>Approvals with only the coverage rule left, and approvals with nothing left.\<close>

definition coverage_left_data :: approvals_data where
  "coverage_left_data =
     \<lparr>approval_rules_left = Some [\<lparr>rule_name = Some ''Coverage-Check''\<rparr>],
      approved = Some False\<rparr>"

definition fully_approved_data :: approvals_data where
  "fully_approved_data = \<lparr>approval_rules_left = Some [], approved = Some True\<rparr>"

text \<open>A merge request with a conflict flag only, and one without any conflict signal.\<close>

definition conflicting_detail :: mr_detail where
  "conflicting_detail =
     \<lparr>merge_status = Some ''can_be_merged'', detailed_merge_status = Some ''mergeable'',
      has_conflicts = Some True, sha = Some ''abc'', source_branch = Some ''feature'',
      head_pipeline = Some \<lparr>head_id = Some 9\<rparr>\<rparr>"

definition clean_detail :: mr_detail where
  "clean_detail = conflicting_detail\<lparr>has_conflicts := Some False\<rparr>"

text \<open>
  Two pipelines of one commit, a merge request that names the older one as its head
  pipeline, and a server that lists the two.
\<close>

definition newest_pipeline :: pipeline where
  "newest_pipeline =
     \<lparr>pl_id = Some 12, pl_status = Some ''failed'', pl_web_url = Some ''https://gl/p/12''\<rparr>"

definition older_pipeline :: pipeline where
  "older_pipeline =
     \<lparr>pl_id = Some 9, pl_status = Some ''success'', pl_web_url = Some ''https://gl/p/9''\<rparr>"

definition detail_with_head :: mr_detail where
  "detail_with_head =
     \<lparr>merge_status = None, detailed_merge_status = None, has_conflicts = None,
      sha = Some ''abc'', source_branch = Some ''feature'',
      head_pipeline = Some \<lparr>head_id = Some 9\<rparr>\<rparr>"

definition listing_server :: gitlab where
  "listing_server =
     \<lparr>pipelines_by_sha = always_ok [newest_pipeline, older_pipeline],
      merge_request = always_ok detail_with_head,
      pipeline_by_id = (\<lambda>i. always_ok older_pipeline)\<rparr>"

text \<open>A server that lists no pipeline for the commit but knows the head pipeline.\<close>

definition empty_listing_server :: gitlab where
  "empty_listing_server = listing_server\<lparr>pipelines_by_sha := always_ok []\<rparr>"

subsection \<open>The notification gate\<close>

definition a_day :: date where
  "a_day = \<lparr>year = 2026, month = 11, day = 4\<rparr>"

text \<open>
  Surroundings in which everything works: Ann and Bea are assigned, Ann has approved,
  nobody is known to Slack by name, and Slack confirms every message.
\<close>

definition quiet_env :: env where
  "quiet_env =
     \<lparr>today = a_day, read_fails = (\<lambda>f. False), write_fails = (\<lambda>f. False),
      add_reviewers_to_mr = True,
      get_mr_assignees_and_approvals = Inr ([''Ann'', ''Bea''], [''Ann'']),
      users_list = (\<lambda>p. NotFound), post_message = (\<lambda>m. True)\<rparr>"

text \<open>The same with a state directory that cannot be written.\<close>

definition unwritable_env :: env where
  "unwritable_env = quiet_env\<lparr>write_fails := (\<lambda>f. True)\<rparr>"

text \<open>The same with marker files that cannot be read.\<close>

definition unreadable_env :: env where
  "unreadable_env = quiet_env\<lparr>read_fails := (\<lambda>f. True)\<rparr>"

text \<open>The same with a Slack that confirms nothing.\<close>

definition slack_down_env :: env where
  "slack_down_env = quiet_env\<lparr>post_message := (\<lambda>m. False)\<rparr>"

text \<open>A notifier with a token, no marker and an empty cache.\<close>

definition fresh_world :: world where
  "fresh_world =
     \<lparr>files = Map.empty, person_cache = Map.empty, slack_token = Some ''xoxb'', trace = []\<rparr>"

text \<open>The same with today's marker for merge request 42 of \<open>web\<close>.\<close>

definition marked_world :: world where
  "marked_world = fresh_world\<lparr>files := [''notified_web-42.date'' \<mapsto> ''2026-11-04'']\<rparr>"

text \<open>Merge request 42 of \<open>web\<close>, waiting for approval with a green pipeline.\<close>

definition pending_record :: mr_data where
  "pending_record =
     \<lparr>repo_name = Some ''web'',
      mr_json = Some \<lparr>iid = Some 42, web_url = Some ''https://gl/web/42''\<rparr>,
      project_id = Some 7,
      approval = Some \<lparr>approved_by_all = Some False, approved_except_coverage = Some False,
                       needs_coverage_check = Some False\<rparr>,
      pipeline_status = Some ''success''\<rparr>"

text \<open>The same merge request, fully approved.\<close>

definition approved_record :: mr_data where
  "approved_record =
     pending_record\<lparr>approval := Some \<lparr>approved_by_all = Some True,
                                        approved_except_coverage = Some False,
                                        needs_coverage_check = Some False\<rparr>\<rparr>"

text \<open>The same without the key \<open>project_id\<close>.\<close>

definition approved_record_without_project :: mr_data where
  "approved_record_without_project = approved_record\<lparr>project_id := None\<rparr>"

subsection \<open>Display entries\<close>

text \<open>An entry as the controller builds it, before and after the model has set its key.\<close>

definition new_entry :: "string \<Rightarrow> string \<Rightarrow> entry" where
  "new_entry r label = \<lparr>repo = Some r, mr = Some label, key = None\<rparr>"

definition shown_entry :: "string \<Rightarrow> string \<Rightarrow> entry" where
  "shown_entry r label = \<lparr>repo = Some r, mr = Some label, key = Some (r @ ''-'' @ label)\<rparr>"

text \<open>Three refreshes: two merge requests of \<open>web\<close>, one of \<open>api\<close>, then \<open>web\<close> again.\<close>

definition three_refreshes :: "(string \<times> entry list) list" where
  "three_refreshes =
     [(''web'', [new_entry ''web'' ''!10'', new_entry ''web'' ''!2'']),
      (''api'', [new_entry ''api'' ''!7'']),
      (''web'', [new_entry ''web'' ''!3''])]"

text \<open>An entry of \<open>api\<close> that arrived in a call for \<open>web\<close>, as the model keeps it.\<close>

definition misfiled_entry :: entry where
  "misfiled_entry = \<lparr>repo = Some ''api'', mr = Some ''!1'', key = Some ''web-!1''\<rparr>"

section \<open>Properties of the HTTP retry client\<close>

lemma backoff_nonneg:
  assumes "0 \<le> (b::int)"
  shows "\<not> b * 2 ^ a < 0" and "\<not> b * 2 ^ a + 5 < 0"
proof -
  from assms have "0 \<le> b * 2 ^ a" by simp
  then show "\<not> b * 2 ^ a < 0" and "\<not> b * 2 ^ a + 5 < 0" by linarith+
qed

lemma on_timeout_continues:
  assumes "0 \<le> base_delay"
  shows "\<exists>s'. on_timeout max_retries base_delay attempt s = (Continue, s')
           \<and> requests s' = requests s"
  using assms by (simp add: on_timeout_def sleep_def backoff_nonneg)

lemma on_exception_continues:
  assumes "0 \<le> base_delay"
  shows "\<exists>s'. on_exception max_retries base_delay attempt s = (Continue, s')
           \<and> requests s' = requests s"
  using assms by (simp add: on_exception_def sleep_def)

lemma attempt_body_cases:
  assumes "0 \<le> base_delay"
  shows "\<exists>c s'. attempt_body max_retries base_delay attempt outcome s = (c, s')
           \<and> requests s' = requests s
           \<and> (c = Continue \<or> c = Return None
                \<or> (\<exists>v. outcome = Responded 200 (Decoded v) \<and> c = Return v))"
proof (cases outcome)
  case (Responded code b)
  show ?thesis
  proof (cases "code = 200")
    case True
    with Responded on_exception_continues [OF assms, of max_retries attempt s] show ?thesis
      by (cases b) (auto simp: attempt_body_def)
  next
    case False
    with Responded on_exception_continues [OF assms, of max_retries attempt s] show ?thesis
      by (auto simp: attempt_body_def sleep_def backoff_nonneg [OF assms])
  qed
next
  case TimedOut
  with on_timeout_continues [OF assms, of max_retries attempt s] show ?thesis
    by (auto simp: attempt_body_def)
next
  case TransportError
  with on_exception_continues [OF assms, of max_retries attempt s] show ?thesis
    by (auto simp: attempt_body_def)
qed

lemma request_loop_returns:
  assumes "0 \<le> base_delay"
  shows "\<exists>r s'. request_loop max_retries base_delay net attempt s = (Inr r, s')
           \<and> int (requests s') \<le> int (requests s) + max 0 (max_retries - int attempt)
           \<and> (r = None
                \<or> (\<exists>k\<ge>attempt. int k < max_retries \<and> net k = Responded 200 (Decoded r)))"
  using assms
proof (induction max_retries base_delay net attempt s rule: request_loop.induct)
  case (1 max_retries base_delay net attempt s)
  show ?case
  proof (cases "int attempt < max_retries")
    case False
    then show ?thesis
      by (simp add: request_loop.simps [of max_retries base_delay net attempt s])
  next
    case True
    let ?s1 = "s\<lparr>requests := Suc (requests s)\<rparr>"
    from attempt_body_cases [OF "1.prems", of max_retries attempt "net attempt" ?s1]
    obtain c s' where
      body: "attempt_body max_retries base_delay attempt (net attempt) ?s1 = (c, s')"
      and req: "requests s' = Suc (requests s)"
      and c: "c = Continue \<or> c = Return None
               \<or> (\<exists>v. net attempt = Responded 200 (Decoded v) \<and> c = Return v)"
      by auto
    show ?thesis
    proof (cases c)
      case Continue
      from "1.IH" [OF True body [symmetric] Continue "1.prems"]
      obtain r s'' where
        "request_loop max_retries base_delay net (Suc attempt) s' = (Inr r, s'')"
        and "int (requests s'') \<le> int (requests s') + max 0 (max_retries - int (Suc attempt))"
        and "r = None
              \<or> (\<exists>k\<ge>Suc attempt. int k < max_retries \<and> net k = Responded 200 (Decoded r))"
        by blast
      with True body Continue req show ?thesis
        by (subst request_loop.simps) (auto intro: Suc_leD)
    next
      case (Return r)
      with True body req c show ?thesis
        by (subst request_loop.simps) auto
    next
      case (Raise e)
      with c show ?thesis by simp
    qed
  qed
qed

lemma gitlab_get_returns: "\<exists>r. fst (gitlab_get net) = Inr r"
proof -
  from request_loop_returns [of 1 3 net 0 "\<lparr>requests = 0, sleeps = []\<rparr>"]
  show ?thesis by (auto simp: gitlab_get_def make_gitlab_request_def)
qed

lemmas run_request =
  gitlab_get_def make_gitlab_request_def request_loop.simps attempt_body_def
  on_timeout_def on_exception_def sleep_def

text \<open>
  C5. When the response of an attempt carries a status other than 200 and 429, the loop
  ends at that attempt, in whatever state \<open>s\<close> it was reached: the call returns
  \<open>None\<close>, the request of that attempt is the last one issued, and nothing is slept after
  it. At the first attempt this is \<open>make_gitlab_request\<close> returning \<open>None\<close> after one
  request and no sleep.
\<close>

theorem other_status_fails_immediately:
  assumes "int attempt < max_retries"
    and "net attempt = Responded status_code b"
    and "status_code \<noteq> 200" and "status_code \<noteq> 429"
  shows "request_loop max_retries base_delay net attempt s
           = (Inr None, s\<lparr>requests := Suc (requests s)\<rparr>)
         \<and> (attempt = 0 \<longrightarrow>
              make_gitlab_request max_retries base_delay net
                = (Inr None, \<lparr>requests = 1, sleeps = []\<rparr>))"
proof -
  have stop: "request_loop max_retries base_delay net attempt s'
          = (Inr None, s'\<lparr>requests := Suc (requests s')\<rparr>)" for s'
    using assms by (subst request_loop.simps) (simp add: attempt_body_def)
  have "make_gitlab_request max_retries base_delay net
          = (Inr None, \<lparr>requests = 1, sleeps = []\<rparr>)" if "attempt = 0"
    using stop [of "\<lparr>requests = 0, sleeps = []\<rparr>"] that
    by (simp add: make_gitlab_request_def)
  with stop [of s] show ?thesis by blast
qed

theorem other_status_fails_immediately_witness:
  "int 1 < (3::int)
   \<and> timeout_then_404 1 = Responded 404 Undecodable
   \<and> (404::int) \<noteq> 200 \<and> (404::int) \<noteq> 429
   \<and> make_gitlab_request 3 1 timeout_then_404 = (Inr None, \<lparr>requests = 2, sleeps = [1]\<rparr>)"
proof -
  have h1: "int 1 < (3::int)" by simp
  have h2: "timeout_then_404 1 = Responded 404 Undecodable"
    by (simp add: timeout_then_404_def)
  have h3: "(404::int) \<noteq> 200" and h4: "(404::int) \<noteq> 429" by simp_all
  have first: "make_gitlab_request 3 1 timeout_then_404
                 = request_loop 3 1 timeout_then_404 1 \<lparr>requests = 1, sleeps = [1]\<rparr>"
    unfolding make_gitlab_request_def
    by (subst request_loop.simps)
       (simp add: attempt_body_def on_timeout_def sleep_def timeout_then_404_def)
  note stop = other_status_fails_immediately
    [where attempt = 1 and max_retries = 3 and net = timeout_then_404 and status_code = 404
       and b = Undecodable and base_delay = 1 and s = "\<lparr>requests = 1, sleeps = [1]\<rparr>"]
  from stop [OF h1 h2 h3 h4] first h1 h2 show ?thesis by simp
qed



section \<open>Properties of the status resolvers\<close>

lemma classify_rules_flags:
  "classify_rules rules (cov, other) =
     (cov \<or> (\<exists>rule\<in>set rules. get_or [] (rule_name rule) = ''Coverage-Check''),
      other \<or> (\<exists>rule\<in>set rules. get_or [] (rule_name rule) \<noteq> ''Coverage-Check''))"
  by (induction rules arbitrary: cov other) auto

lemma gitlab_get_always_ok: "fst (gitlab_get (always_ok v)) = Inr (Some v)"
  by (simp add: run_request always_ok_def)

lemma gitlab_get_always_timeout: "fst (gitlab_get always_timeout) = Inr None"
  by (simp add: run_request always_timeout_def)

text \<open>
  C4. When the approvals are fetched, \<open>approved_except_coverage\<close> is true exactly when no
  rule with a name other than \<open>Coverage-Check\<close> is left and the merge request is not
  fully approved or a \<open>Coverage-Check\<close> rule is left; with no rule left and full approval
  it is false; when the fetch fails, the three flags are false.
\<close>

theorem get_approval_status_flags:
  "(\<forall>data. fst (gitlab_get net) = Inr (Some data) \<longrightarrow>
      (\<exists>st. get_approval_status net = Inr st
         \<and> approved_by_all st = Some (get_or False (approved data))
         \<and> needs_coverage_check st =
             Some (\<exists>rule\<in>set (get_or [] (approval_rules_left data)).
                     get_or [] (rule_name rule) = ''Coverage-Check'')
         \<and> approved_except_coverage st =
             Some ((\<forall>rule\<in>set (get_or [] (approval_rules_left data)).
                      get_or [] (rule_name rule) = ''Coverage-Check'')
                   \<and> (\<not> get_or False (approved data)
                        \<or> (\<exists>rule\<in>set (get_or [] (approval_rules_left data)).
                              get_or [] (rule_name rule) = ''Coverage-Check'')))
         \<and> (get_or [] (approval_rules_left data) = [] \<and> get_or False (approved data)
               \<longrightarrow> approved_except_coverage st = Some False)))
   \<and> (fst (gitlab_get net) = Inr None \<longrightarrow>
        get_approval_status net =
          Inr \<lparr>approved_by_all = Some False, approved_except_coverage = Some False,
               needs_coverage_check = Some False\<rparr>)"
  by (auto simp: get_approval_status_def classify_rules_flags Let_def)

theorem get_approval_status_flags_witness:
  "fst (gitlab_get (always_ok coverage_left_data)) = Inr (Some coverage_left_data)
   \<and> get_approval_status (always_ok coverage_left_data) =
       Inr \<lparr>approved_by_all = Some False, approved_except_coverage = Some True,
            needs_coverage_check = Some True\<rparr>
   \<and> fst (gitlab_get (always_ok fully_approved_data)) = Inr (Some fully_approved_data)
   \<and> get_approval_status (always_ok fully_approved_data) =
       Inr \<lparr>approved_by_all = Some True, approved_except_coverage = Some False,
            needs_coverage_check = Some False\<rparr>
   \<and> fst (gitlab_get (always_timeout :: nat \<Rightarrow> approvals_data transport)) = Inr None
   \<and> get_approval_status always_timeout =
       Inr \<lparr>approved_by_all = Some False, approved_except_coverage = Some False,
            needs_coverage_check = Some False\<rparr>"
proof -
  note a = get_approval_status_flags [of "always_ok coverage_left_data"]
  note b = get_approval_status_flags [of "always_ok fully_approved_data"]
  note c = get_approval_status_flags [of always_timeout]
  have 1: "get_approval_status (always_ok coverage_left_data) =
       Inr \<lparr>approved_by_all = Some False, approved_except_coverage = Some True,
            needs_coverage_check = Some True\<rparr>"
    using a by (auto simp: gitlab_get_always_ok coverage_left_data_def get_or_def)
  have 2: "get_approval_status (always_ok fully_approved_data) =
       Inr \<lparr>approved_by_all = Some True, approved_except_coverage = Some False,
            needs_coverage_check = Some False\<rparr>"
    using b by (auto simp: gitlab_get_always_ok fully_approved_data_def get_or_def)
  have 3: "get_approval_status always_timeout =
       Inr \<lparr>approved_by_all = Some False, approved_except_coverage = Some False,
            needs_coverage_check = Some False\<rparr>"
    using c by (simp add: gitlab_get_always_timeout)
  from 1 2 3 show ?thesis by (simp add: gitlab_get_always_ok gitlab_get_always_timeout)
qed

text \<open>
  C6. When the merge request is fetched and one of the three signals holds
  (\<open>detailed_merge_status\<close> is \<open>conflict\<close>, \<open>merge_status\<close> is \<open>cannot_be_merged\<close>,
  \<open>has_conflicts\<close> is true), the result is \<open>CONFLICT\<close>; when none holds, or the fetch
  fails, it is the empty string.
\<close>

theorem get_merge_status_conflict:
  "(\<forall>d. fst (gitlab_get net) = Inr (Some d)
         \<and> (detailed_merge_status d = Some ''conflict''
              \<or> merge_status d = Some ''cannot_be_merged''
              \<or> has_conflicts d = Some True)
        \<longrightarrow> get_merge_status net = Inr ''CONFLICT'')
   \<and> (\<forall>d. fst (gitlab_get net) = Inr (Some d)
         \<and> detailed_merge_status d \<noteq> Some ''conflict''
         \<and> merge_status d \<noteq> Some ''cannot_be_merged''
         \<and> has_conflicts d \<noteq> Some True
        \<longrightarrow> get_merge_status net = Inr [])
   \<and> (fst (gitlab_get net) = Inr None \<longrightarrow> get_merge_status net = Inr [])"
  by (auto simp: get_merge_status_def get_or_def split: option.splits)

theorem get_merge_status_conflict_witness:
  "fst (gitlab_get (always_ok conflicting_detail)) = Inr (Some conflicting_detail)
   \<and> has_conflicts conflicting_detail = Some True
   \<and> get_merge_status (always_ok conflicting_detail) = Inr ''CONFLICT''
   \<and> fst (gitlab_get (always_ok clean_detail)) = Inr (Some clean_detail)
   \<and> detailed_merge_status clean_detail \<noteq> Some ''conflict''
   \<and> merge_status clean_detail \<noteq> Some ''cannot_be_merged''
   \<and> has_conflicts clean_detail \<noteq> Some True
   \<and> get_merge_status (always_ok clean_detail) = Inr []
   \<and> fst (gitlab_get (always_timeout :: nat \<Rightarrow> mr_detail transport)) = Inr None
   \<and> get_merge_status always_timeout = Inr []"
proof -
  have h1: "fst (gitlab_get (always_ok conflicting_detail)) = Inr (Some conflicting_detail)"
    and h2: "fst (gitlab_get (always_ok clean_detail)) = Inr (Some clean_detail)"
    by (rule gitlab_get_always_ok)+
  have h3: "fst (gitlab_get (always_timeout :: nat \<Rightarrow> mr_detail transport)) = Inr None"
    by (rule gitlab_get_always_timeout)
  have f1: "has_conflicts conflicting_detail = Some True"
    by (simp add: conflicting_detail_def)
  have f2: "detailed_merge_status clean_detail \<noteq> Some ''conflict''"
    "merge_status clean_detail \<noteq> Some ''cannot_be_merged''"
    "has_conflicts clean_detail \<noteq> Some True"
    by (simp_all add: clean_detail_def conflicting_detail_def)
  from get_merge_status_conflict [of "always_ok conflicting_detail"] h1 f1
  have 1: "get_merge_status (always_ok conflicting_detail) = Inr ''CONFLICT''" by blast
  from get_merge_status_conflict [of "always_ok clean_detail"] h2 f2
  have 2: "get_merge_status (always_ok clean_detail) = Inr []" by blast
  from get_merge_status_conflict [of always_timeout] h3
  have 3: "get_merge_status always_timeout = Inr []" by blast
  from h1 h2 h3 f1 f2 1 2 3 show ?thesis by simp
qed

text \<open>
  C7. When the query by commit returns a list with at least one pipeline, the result is
  the status and the URL of the first one and no other endpoint is queried, whatever
  \<open>mr_iid\<close> is; the merge request and its head pipeline are queried only when that list
  is empty or the query failed.
\<close>

theorem first_pipeline_is_authoritative:
  "(\<forall>p ps st i url.
       fst (gitlab_get (pipelines_by_sha g)) = Inr (Some (p # ps))
       \<and> pl_status p = Some st \<and> pl_id p = Some i \<and> pl_web_url p = Some url
      \<longrightarrow> (\<exists>debug. get_pipeline_status g mr_iid
                      = (Inr (Some st, Some url, debug), [PipelinesBySha])))
   \<and> (snd (get_pipeline_status g mr_iid) \<noteq> [PipelinesBySha]
      \<longrightarrow> fst (gitlab_get (pipelines_by_sha g)) = Inr None
          \<or> fst (gitlab_get (pipelines_by_sha g)) = Inr (Some []))"
  by (auto simp: get_pipeline_status_def Let_def split: sum.splits option.splits list.splits)

theorem first_pipeline_is_authoritative_witness:
  "fst (gitlab_get (pipelines_by_sha listing_server))
     = Inr (Some [newest_pipeline, older_pipeline])
   \<and> pl_status newest_pipeline = Some ''failed'' \<and> pl_id newest_pipeline = Some 12
   \<and> pl_web_url newest_pipeline = Some ''https://gl/p/12''
   \<and> (\<exists>debug. get_pipeline_status listing_server (Some 42)
                 = (Inr (Some ''failed'', Some ''https://gl/p/12'', debug), [PipelinesBySha]))
   \<and> snd (get_pipeline_status empty_listing_server (Some 42))
       = [PipelinesBySha, MergeRequest, PipelineById 9]
   \<and> fst (gitlab_get (pipelines_by_sha empty_listing_server)) = Inr (Some [])"
proof -
  have h: "fst (gitlab_get (pipelines_by_sha listing_server))
             = Inr (Some [newest_pipeline, older_pipeline])"
    by (simp add: listing_server_def gitlab_get_always_ok)
  have f: "pl_status newest_pipeline = Some ''failed''" "pl_id newest_pipeline = Some 12"
    "pl_web_url newest_pipeline = Some ''https://gl/p/12''"
    by (simp_all add: newest_pipeline_def)
  from first_pipeline_is_authoritative [of listing_server "Some 42"] h f
  have 1: "\<exists>debug. get_pipeline_status listing_server (Some 42)
                 = (Inr (Some ''failed'', Some ''https://gl/p/12'', debug), [PipelinesBySha])"
    by blast
  have 2: "snd (get_pipeline_status empty_listing_server (Some 42))
             = [PipelinesBySha, MergeRequest, PipelineById 9]"
    by (simp add: get_pipeline_status_def head_pipeline_fallback_def empty_listing_server_def
          listing_server_def gitlab_get_always_ok detail_with_head_def older_pipeline_def)
  from first_pipeline_is_authoritative [of empty_listing_server "Some 42"] 2
  have 3: "fst (gitlab_get (pipelines_by_sha empty_listing_server)) = Inr None
          \<or> fst (gitlab_get (pipelines_by_sha empty_listing_server)) = Inr (Some [])"
    by simp
  have "fst (gitlab_get (pipelines_by_sha empty_listing_server)) \<noteq> Inr None"
    by (simp add: empty_listing_server_def listing_server_def gitlab_get_always_ok)
  with 3 have 4: "fst (gitlab_get (pipelines_by_sha empty_listing_server)) = Inr (Some [])"
    by simp
  from h f 1 2 4 show ?thesis by simp
qed

section \<open>Properties of the notification gate\<close>

subsection \<open>Text\<close>

lemma digits_not_space: "k < 10 \<Longrightarrow> \<not> is_space (''0123456789'' ! k)"
proof -
  assume "k < 10"
  then have "k = 0 \<or> k = 1 \<or> k = 2 \<or> k = 3 \<or> k = 4 \<or> k = 5 \<or> k = 6 \<or> k = 7
    \<or> k = 8 \<or> k = 9" by arith
  then show ?thesis by (elim disjE) (simp_all add: is_space_def)
qed

lemma digit_char_not_space: "\<not> is_space (digit_char n)"
  by (simp add: digit_char_def digits_not_space)

lemma strip_isoformat: "strip (isoformat d) = isoformat d"
  by (simp add: strip_def isoformat_def digit_char_not_space)

subsection \<open>What each step does to the marker files and to the trace\<close>

lemma mark_notified_effect:
  "trace (mark_notified e w k) =
     trace w @ [WriteMarker (get_notification_date_file k) (isoformat (today e))
                  (\<not> write_fails e (get_notification_date_file k))]"
  "files (mark_notified e w k) =
     (if write_fails e (get_notification_date_file k) then files w
      else (files w)(get_notification_date_file k \<mapsto> isoformat (today e)))"
  "slack_token (mark_notified e w k) = slack_token w"
  by (simp_all add: mark_notified_def Let_def)

lemma should_notify_files:
  "files w' = files w \<Longrightarrow> should_notify e w' k = should_notify e w k"
  by (simp add: should_notify_def)

lemma should_notify_after_mark:
  assumes "\<not> write_fails e1 (get_notification_date_file k)"
    and "\<not> read_fails e2 (get_notification_date_file k)"
    and "today e2 = today e1"
    and "files w' = files (mark_notified e1 w k)"
  shows "\<not> should_notify e2 w' k"
  using assms by (simp add: should_notify_def mark_notified_effect strip_isoformat)

lemma check_and_add_effect:
  "\<exists>adds. trace (snd (check_and_add_coverage_reviewers e p i d w)) = trace w @ adds
     \<and> list_all is_add_reviewers adds
     \<and> files (snd (check_and_add_coverage_reviewers e p i d w)) = files w
     \<and> slack_token (snd (check_and_add_coverage_reviewers e p i d w)) = slack_token w"
  by (auto simp: check_and_add_coverage_reviewers_def is_add_reviewers_def
           split: option.splits)

lemma get_slack_user_id_effect:
  "get_slack_user_id e person w = (uid, w') \<Longrightarrow>
     trace w' = trace w \<and> files w' = files w \<and> slack_token w' = slack_token w"
  by (auto simp: get_slack_user_id_def split: option.splits if_splits lookup.splits)

lemma assignee_mentions_effect:
  "assignee_mentions e assignees w = (ms, w') \<Longrightarrow>
     trace w' = trace w \<and> files w' = files w \<and> slack_token w' = slack_token w"
proof (induction assignees arbitrary: w ms w')
  case Nil
  then show ?case by simp
next
  case (Cons a assignees)
  obtain uid w1 where u: "get_slack_user_id e a w = (uid, w1)" by force
  obtain ms2 w2 where m: "assignee_mentions e assignees w1 = (ms2, w2)" by force
  from Cons.prems u m have "w' = w2" by simp
  with Cons.IH [OF m] get_slack_user_id_effect [OF u] show ?case by simp
qed

lemma format_effect:
  "format_notification_message e d assignees w = Inr (message, w') \<Longrightarrow>
     trace w' = trace w \<and> files w' = files w \<and> slack_token w' = slack_token w"
  by (auto simp: format_notification_message_def
           split: option.splits prod.splits dest: assignee_mentions_effect)

lemma send_effect:
  "send_slack_message e message w =
     (truthy (slack_token w) \<and> post_message e message,
      w\<lparr>trace := trace w @ [SendMessage message (truthy (slack_token w) \<and> post_message e message)]\<rparr>)"
  by (simp add: send_slack_message_def Let_def)

subsection \<open>The branches of the gate\<close>

lemma process_no_merge_request:
  "mr_json d = None \<Longrightarrow> process_mr_for_notification e d w = (False, w)"
  by (simp add: process_mr_for_notification_def)

lemma process_no_iid:
  "mr_json d = Some m \<Longrightarrow> iid m = None \<Longrightarrow> process_mr_for_notification e d w = (False, w)"
  by (simp add: process_mr_for_notification_def)

lemma process_already_notified:
  "mr_json d = Some m \<Longrightarrow> iid m = Some i \<Longrightarrow> \<not> should_notify e w (mr_key_of d i)
     \<Longrightarrow> process_mr_for_notification e d w = (False, w)"
  by (simp add: process_mr_for_notification_def)

lemma process_no_project:
  "mr_json d = Some m \<Longrightarrow> iid m = Some i \<Longrightarrow> project_id d = None
     \<Longrightarrow> process_mr_for_notification e d w = (False, w)"
  by (simp add: process_mr_for_notification_def Let_def)

lemma process_approved:
  "mr_json d = Some m \<Longrightarrow> iid m = Some i \<Longrightarrow> should_notify e w (mr_key_of d i)
     \<Longrightarrow> project_id d = Some p \<Longrightarrow> approval d = Some a
     \<Longrightarrow> get_or False (approved_by_all a)
     \<Longrightarrow> process_mr_for_notification e d w = (False, mark_notified e w (mr_key_of d i))"
  by (simp add: process_mr_for_notification_def Let_def)

lemma process_fetch_failed:
  "mr_json d = Some m \<Longrightarrow> iid m = Some i \<Longrightarrow> should_notify e w (mr_key_of d i)
     \<Longrightarrow> project_id d = Some p
     \<Longrightarrow> \<not> (case approval d of None \<Rightarrow> False
              | Some approval_status \<Rightarrow> get_or False (approved_by_all approval_status))
     \<Longrightarrow> get_mr_assignees_and_approvals e = Inl err
     \<Longrightarrow> process_mr_for_notification e d w =
           (False, snd (check_and_add_coverage_reviewers e p i d w))"
  by (simp add: process_mr_for_notification_def Let_def)

lemma process_fetched:
  "mr_json d = Some m \<Longrightarrow> iid m = Some i \<Longrightarrow> should_notify e w (mr_key_of d i)
     \<Longrightarrow> project_id d = Some p
     \<Longrightarrow> \<not> (case approval d of None \<Rightarrow> False
              | Some approval_status \<Rightarrow> get_or False (approved_by_all approval_status))
     \<Longrightarrow> get_mr_assignees_and_approvals e = Inr (assignees, approved_users)
     \<Longrightarrow> process_mr_for_notification e d w =
           (if assignees = [] \<or> filter (\<lambda>a. a \<notin> set approved_users) assignees = []
            then (False, mark_notified e (snd (check_and_add_coverage_reviewers e p i d w))
                           (mr_key_of d i))
            else
              (case format_notification_message e d
                      (filter (\<lambda>a. a \<notin> set approved_users) assignees)
                      (snd (check_and_add_coverage_reviewers e p i d w)) of
                 Inl err \<Rightarrow> (False, snd (check_and_add_coverage_reviewers e p i d w))
               | Inr (message, w2) \<Rightarrow>
                   (case send_slack_message e message w2 of
                      (True, w3) \<Rightarrow> (True, mark_notified e w3 (mr_key_of d i))
                    | (False, w3) \<Rightarrow> (False, w3))))"
  by (simp add: process_mr_for_notification_def Let_def)

subsection \<open>The shape of an evaluation\<close>

lemma outcome_unchanged: "outcome_shape e d w False w []"
  by (simp add: outcome_shape_def)

lemma outcome_marked:
  assumes "mr_json d = Some m" "iid m = Some i" "should_notify e w (mr_key_of d i)"
    "project_id d = Some p"
    and "trace w1 = trace w @ adds" "list_all is_add_reviewers adds" "files w1 = files w"
    "slack_token w1 = slack_token w"
  shows "outcome_shape e d w False (mark_notified e w1 (mr_key_of d i)) adds"
  using assms by (simp add: outcome_shape_def mark_notified_effect)

lemma outcome_sent:
  assumes "mr_json d = Some m" "iid m = Some i" "should_notify e w (mr_key_of d i)"
    "project_id d = Some p"
    and "trace w1 = trace w @ adds" "list_all is_add_reviewers adds" "files w1 = files w"
    "slack_token w1 = slack_token w"
  shows "outcome_shape e d w True
           (mark_notified e (w1\<lparr>trace := trace w1 @ [SendMessage message True]\<rparr>) (mr_key_of d i))
           adds"
  using assms by (simp add: outcome_shape_def mark_notified_effect)

lemma outcome_send_failed:
  assumes "mr_json d = Some m" "iid m = Some i" "should_notify e w (mr_key_of d i)"
    "project_id d = Some p"
    and "trace w1 = trace w @ adds" "list_all is_add_reviewers adds" "files w1 = files w"
    "slack_token w1 = slack_token w"
  shows "outcome_shape e d w False (w1\<lparr>trace := trace w1 @ [SendMessage message False]\<rparr>) adds"
  using assms by (simp add: outcome_shape_def)

lemma outcome_stopped:
  assumes "trace w1 = trace w @ adds" "list_all is_add_reviewers adds" "files w1 = files w"
    "slack_token w1 = slack_token w"
  shows "outcome_shape e d w False w1 adds"
  using assms by (simp add: outcome_shape_def)

lemma process_outcome:
  "\<exists>adds. outcome_shape e d w (fst (process_mr_for_notification e d w))
            (snd (process_mr_for_notification e d w)) adds"
proof (cases "mr_json d")
  case None
  then show ?thesis using outcome_unchanged by (auto simp: process_no_merge_request)
next
  case (Some m)
  note m = this
  show ?thesis
  proof (cases "iid m")
    case None
    with m show ?thesis using outcome_unchanged by (auto simp: process_no_iid)
  next
    case (Some i)
    note i = this
    show ?thesis
    proof (cases "should_notify e w (mr_key_of d i)")
      case False
      with m i show ?thesis using outcome_unchanged by (auto simp: process_already_notified)
    next
      case True
      note notify = this
      show ?thesis
      proof (cases "project_id d")
        case None
        with m i show ?thesis using outcome_unchanged by (auto simp: process_no_project)
      next
        case (Some p)
        note p = this
        let ?w1 = "snd (check_and_add_coverage_reviewers e p i d w)"
        from check_and_add_effect [of e p i d w] obtain adds where
          w1: "trace ?w1 = trace w @ adds" "list_all is_add_reviewers adds"
            "files ?w1 = files w" "slack_token ?w1 = slack_token w"
          by blast
        show ?thesis
        proof (cases "case approval d of None \<Rightarrow> False
                      | Some approval_status \<Rightarrow> get_or False (approved_by_all approval_status)")
          case True
          then obtain a where "approval d = Some a" "get_or False (approved_by_all a)"
            by (auto split: option.splits)
          from process_approved [OF m i notify p this]
            outcome_marked [OF m i notify p, of w "[]"]
          show ?thesis by auto
        next
          case False
          note pending = this
          show ?thesis
          proof (cases "get_mr_assignees_and_approvals e")
            case (Inl err)
            from process_fetch_failed [OF m i notify p pending Inl] outcome_stopped [OF w1]
            show ?thesis by auto
          next
            case (Inr pair)
            obtain assignees approved_users where "pair = (assignees, approved_users)"
              by (cases pair)
            with Inr have fetched:
              "get_mr_assignees_and_approvals e = Inr (assignees, approved_users)" by simp
            note unfolded = process_fetched [OF m i notify p pending fetched]
            let ?pending = "filter (\<lambda>a. a \<notin> set approved_users) assignees"
            show ?thesis
            proof (cases "assignees = [] \<or> ?pending = []")
              case True
              with unfolded outcome_marked [OF m i notify p w1] show ?thesis by auto
            next
              case False
              note some_pending = this
              show ?thesis
              proof (cases "format_notification_message e d ?pending ?w1")
                case (Inl err)
                with unfolded some_pending outcome_stopped [OF w1] show ?thesis by auto
              next
                case (Inr formatted)
                obtain message w2 where "formatted = (message, w2)" by (cases formatted)
                with Inr have fmt:
                  "format_notification_message e d ?pending ?w1 = Inr (message, w2)" by simp
                from format_effect [OF fmt] w1
                have w2: "trace w2 = trace w @ adds" "list_all is_add_reviewers adds"
                  "files w2 = files w" "slack_token w2 = slack_token w" by simp_all
                show ?thesis
                proof (cases "truthy (slack_token w2) \<and> post_message e message")
                  case True
                  with unfolded some_pending fmt
                  have "process_mr_for_notification e d w =
                          (True, mark_notified e
                             (w2\<lparr>trace := trace w2 @ [SendMessage message True]\<rparr>)
                             (mr_key_of d i))"
                    by (simp add: send_effect)
                  with outcome_sent [OF m i notify p w2] show ?thesis by auto
                next
                  case False
                  with unfolded some_pending fmt
                  have "process_mr_for_notification e d w =
                          (False, w2\<lparr>trace := trace w2 @ [SendMessage message False]\<rparr>)"
                    by (simp add: send_effect)
                  with outcome_send_failed [OF m i notify p w2] show ?thesis by auto
                qed
              qed
            qed
          qed
        qed
      qed
    qed
  qed
qed

subsection \<open>Traces\<close>

lemma new_events_append: "trace w' = trace w @ evs \<Longrightarrow> new_events w w' = evs"
  by (simp add: new_events_def)

lemma add_reviewers_only:
  assumes "list_all is_add_reviewers adds"
  shows "SendMessage message sent \<notin> set adds" and "\<not> list_ex is_marker_write adds"
    and "concat (map (\<lambda>ev. case ev of SendMessage m True \<Rightarrow> [m] | _ \<Rightarrow> []) adds) = []"
  using assms
  by (induction adds)
     (auto simp: is_add_reviewers_def is_marker_write_def split: event.splits)

lemma sent_messages_shape:
  assumes "outcome_shape e d w r w' adds"
  shows "length (sent_messages w') = length (sent_messages w) + (if r then 1 else 0)"
  using assms add_reviewers_only(3) [of adds]
  by (auto simp: outcome_shape_def sent_messages_def)

subsection \<open>Evaluations of the examples\<close>

lemma key_42: "mr_key_of pending_record 42 = ''web-42''"
  by (simp add: mr_key_of_def pending_record_def get_or_def str_int_def str_nat.simps
        digit_char_def)

lemma file_42: "get_notification_date_file ''web-42'' = ''notified_web-42.date''"
  by (simp add: get_notification_date_file_def)

lemma a_day_text: "isoformat a_day = ''2026-11-04''"
  by (simp add: isoformat_def a_day_def digit_char_def)

lemmas run_gate =
  process_mr_for_notification_def should_notify_def mark_notified_def
  check_and_add_coverage_reviewers_def format_notification_message_def
  get_slack_user_id_def send_slack_message_def truthy_def get_or_def Let_def
  mr_key_of_def str_int_def str_nat.simps digit_char_def
  get_notification_date_file_def isoformat_def strip_def is_space_def

lemma run_quiet:
  "process_mr_for_notification quiet_env pending_record fresh_world =
     (True, fresh_world\<lparr>files := [''notified_web-42.date'' \<mapsto> ''2026-11-04''],
              person_cache := [''Bea'' \<mapsto> None],
              trace := [SendMessage ''Please review Bea: https://gl/web/42 (ty)'' True,
                        WriteMarker ''notified_web-42.date'' ''2026-11-04'' True]\<rparr>)"
  by (simp add: run_gate a_day_def quiet_env_def fresh_world_def pending_record_def)

lemma run_slack_down:
  "process_mr_for_notification slack_down_env pending_record fresh_world =
     (False, fresh_world\<lparr>person_cache := [''Bea'' \<mapsto> None],
               trace := [SendMessage ''Please review Bea: https://gl/web/42 (ty)'' False]\<rparr>)"
  by (simp add: run_gate a_day_def quiet_env_def slack_down_env_def fresh_world_def pending_record_def)

lemma run_unwritable:
  "process_mr_for_notification unwritable_env pending_record fresh_world =
     (True, fresh_world\<lparr>person_cache := [''Bea'' \<mapsto> None],
              trace := [SendMessage ''Please review Bea: https://gl/web/42 (ty)'' True,
                        WriteMarker ''notified_web-42.date'' ''2026-11-04'' False]\<rparr>)"
  by (simp add: run_gate a_day_def quiet_env_def unwritable_env_def fresh_world_def pending_record_def)

lemma run_unwritable_again:
  "process_mr_for_notification unwritable_env pending_record
     (fresh_world\<lparr>person_cache := [''Bea'' \<mapsto> None],
              trace := [SendMessage ''Please review Bea: https://gl/web/42 (ty)'' True,
                        WriteMarker ''notified_web-42.date'' ''2026-11-04'' False]\<rparr>) =
     (True, fresh_world\<lparr>person_cache := [''Bea'' \<mapsto> None],
              trace := [SendMessage ''Please review Bea: https://gl/web/42 (ty)'' True,
                        WriteMarker ''notified_web-42.date'' ''2026-11-04'' False,
                        SendMessage ''Please review Bea: https://gl/web/42 (ty)'' True,
                        WriteMarker ''notified_web-42.date'' ''2026-11-04'' False]\<rparr>)"
  by (simp add: run_gate a_day_def quiet_env_def unwritable_env_def fresh_world_def pending_record_def)

lemma run_unreadable:
  "process_mr_for_notification unreadable_env pending_record marked_world =
     (True, marked_world\<lparr>person_cache := [''Bea'' \<mapsto> None],
              trace := [SendMessage ''Please review Bea: https://gl/web/42 (ty)'' True,
                        WriteMarker ''notified_web-42.date'' ''2026-11-04'' True]\<rparr>)"
  by (simp add: run_gate a_day_def quiet_env_def unreadable_env_def fresh_world_def
        marked_world_def pending_record_def)

lemma run_unreadable_again:
  "process_mr_for_notification unreadable_env pending_record
     (marked_world\<lparr>person_cache := [''Bea'' \<mapsto> None],
              trace := [SendMessage ''Please review Bea: https://gl/web/42 (ty)'' True,
                        WriteMarker ''notified_web-42.date'' ''2026-11-04'' True]\<rparr>) =
     (True, marked_world\<lparr>person_cache := [''Bea'' \<mapsto> None],
              trace := [SendMessage ''Please review Bea: https://gl/web/42 (ty)'' True,
                        WriteMarker ''notified_web-42.date'' ''2026-11-04'' True,
                        SendMessage ''Please review Bea: https://gl/web/42 (ty)'' True,
                        WriteMarker ''notified_web-42.date'' ''2026-11-04'' True]\<rparr>)"
  by (simp add: run_gate a_day_def quiet_env_def unreadable_env_def fresh_world_def
        marked_world_def pending_record_def)

lemma run_approved:
  "process_mr_for_notification quiet_env approved_record fresh_world =
     (False, fresh_world\<lparr>files := [''notified_web-42.date'' \<mapsto> ''2026-11-04''],
               trace := [WriteMarker ''notified_web-42.date'' ''2026-11-04'' True]\<rparr>)"
  by (simp add: run_gate a_day_def quiet_env_def fresh_world_def pending_record_def
        approved_record_def)

lemma run_approved_without_project:
  "process_mr_for_notification quiet_env approved_record_without_project fresh_world =
     (False, fresh_world)"
  by (simp add: run_gate a_day_def quiet_env_def fresh_world_def pending_record_def
        approved_record_def approved_record_without_project_def)

lemma run_approved_unwritable:
  "process_mr_for_notification unwritable_env approved_record fresh_world =
     (False, fresh_world\<lparr>trace := [WriteMarker ''notified_web-42.date'' ''2026-11-04'' False]\<rparr>)"
  by (simp add: run_gate a_day_def quiet_env_def unwritable_env_def fresh_world_def
        pending_record_def approved_record_def)

subsection \<open>The claims about the gate\<close>

text \<open>
  C10. When the marker file of a key exists and reading it raises, \<open>_should_notify\<close>
  returns true: the merge request is eligible for a notification, whatever the file holds.
\<close>

theorem unreadable_marker_is_eligible:
  assumes "files w (get_notification_date_file mr_key) \<noteq> None"
    and "read_fails e (get_notification_date_file mr_key)"
  shows "should_notify e w mr_key"
  using assms by (auto simp: should_notify_def)

theorem unreadable_marker_is_eligible_witness:
  "files marked_world (get_notification_date_file ''web-42'') \<noteq> None
   \<and> read_fails unreadable_env (get_notification_date_file ''web-42'')
   \<and> should_notify unreadable_env marked_world ''web-42''
   \<and> \<not> should_notify quiet_env marked_world ''web-42''"
proof -
  have h1: "files marked_world (get_notification_date_file ''web-42'') \<noteq> None"
    by (simp add: marked_world_def file_42)
  have h2: "read_fails unreadable_env (get_notification_date_file ''web-42'')"
    by (simp add: unreadable_env_def)
  have readable: "\<not> should_notify quiet_env marked_world ''web-42''"
    by (simp add: run_gate a_day_def quiet_env_def fresh_world_def marked_world_def)
  from unreadable_marker_is_eligible [OF h1 h2] h1 h2 readable show ?thesis by simp
qed

text \<open>
  C3. When an evaluation calls \<open>_send_slack_message\<close>: if the send is confirmed, the
  evaluation returns true and the marker write is the next and last effect, with no marker
  write before the send; if the send fails, the evaluation returns false, writes no marker
  and leaves every marker file as it was, so that \<open>_should_notify\<close> answers for every
  key and in all surroundings as it did before, and the key of the record is still
  eligible.
\<close>

theorem marker_written_only_after_confirmed_send:
  assumes "process_mr_for_notification e d w = (r, w')"
    and "SendMessage message sent \<in> set (new_events w w')"
  shows "(sent \<longrightarrow> r
            \<and> (\<exists>before f. new_events w w' =
                   before @ [SendMessage message True,
                             WriteMarker f (isoformat (today e)) (\<not> write_fails e f)]
                 \<and> \<not> list_ex is_marker_write before))
       \<and> (\<not> sent \<longrightarrow> \<not> r
            \<and> \<not> list_ex is_marker_write (new_events w w')
            \<and> files w' = files w
            \<and> (\<forall>e' k. should_notify e' w' k = should_notify e' w k)
            \<and> (\<exists>m i. mr_json d = Some m \<and> iid m = Some i
                  \<and> should_notify e w' (mr_key_of d i)))"
proof -
  from process_outcome [of e d w] assms(1) obtain adds where
    shape: "outcome_shape e d w r w' adds" by auto
  then have adds: "list_all is_add_reviewers adds" by (simp add: outcome_shape_def)
  note no_send = add_reviewers_only(1) [OF adds] and no_mark = add_reviewers_only(2) [OF adds]
  from shape consider
    (quiet) "\<not> r" "trace w' = trace w @ adds"
  | (marked) i where "trace w' = trace w @ adds
        @ [WriteMarker (get_notification_date_file (mr_key_of d i)) (isoformat (today e))
             (\<not> write_fails e (get_notification_date_file (mr_key_of d i)))]"
  | (failed) m i msg where "mr_json d = Some m" "iid m = Some i"
      "should_notify e w (mr_key_of d i)" "\<not> r"
      "trace w' = trace w @ adds @ [SendMessage msg False]" "files w' = files w"
  | (sent) i msg where "r" "trace w' = trace w @ adds
        @ [SendMessage msg True,
           WriteMarker (get_notification_date_file (mr_key_of d i)) (isoformat (today e))
             (\<not> write_fails e (get_notification_date_file (mr_key_of d i)))]"
    by (auto simp: outcome_shape_def)
  then show ?thesis
  proof cases
    case quiet
    with assms(2) no_send show ?thesis by (simp add: new_events_append)
  next
    case marked
    from new_events_append [OF marked] assms(2) no_send show ?thesis by simp
  next
    case failed
    from new_events_append [OF failed(5)] assms(2) no_send
    have ev: "new_events w w' = adds @ [SendMessage msg False]" and unsent: "\<not> sent" by auto
    from ev no_mark have unmarked: "\<not> list_ex is_marker_write (new_events w w')"
      by (simp add: is_marker_write_def)
    from should_notify_files [OF failed(6), of e "mr_key_of d i"] failed(3)
    have "should_notify e w' (mr_key_of d i)" by simp
    with failed(1,2) have eligible:
      "\<exists>m i. mr_json d = Some m \<and> iid m = Some i \<and> should_notify e w' (mr_key_of d i)"
      by blast
    from failed(6) have same: "\<forall>e' k. should_notify e' w' k = should_notify e' w k"
      by (simp add: should_notify_def)
    from unsent failed(4) unmarked failed(6) same eligible show ?thesis by simp
  next
    case sent
    let ?f = "get_notification_date_file (mr_key_of d i)"
    from new_events_append [OF sent(2)] assms(2) no_send
    have ev: "new_events w w' = adds
        @ [SendMessage message True, WriteMarker ?f (isoformat (today e)) (\<not> write_fails e ?f)]"
      and confirmed: "sent" by auto
    from ev no_mark have
      "new_events w w' = adds
          @ [SendMessage message True, WriteMarker ?f (isoformat (today e)) (\<not> write_fails e ?f)]
       \<and> \<not> list_ex is_marker_write adds" by simp
    then have "\<exists>before f. new_events w w' =
                   before @ [SendMessage message True,
                             WriteMarker f (isoformat (today e)) (\<not> write_fails e f)]
                 \<and> \<not> list_ex is_marker_write before"
      by (intro exI [of _ adds] exI [of _ ?f])
    with confirmed sent(1) show ?thesis by simp
  qed
qed

theorem marker_written_only_after_confirmed_send_witness:
  "SendMessage ''Please review Bea: https://gl/web/42 (ty)'' True
     \<in> set (new_events fresh_world (snd (process_mr_for_notification quiet_env pending_record fresh_world)))
   \<and> new_events fresh_world (snd (process_mr_for_notification quiet_env pending_record fresh_world))
       = [SendMessage ''Please review Bea: https://gl/web/42 (ty)'' True,
          WriteMarker ''notified_web-42.date'' ''2026-11-04'' True]
   \<and> SendMessage ''Please review Bea: https://gl/web/42 (ty)'' False
     \<in> set (new_events fresh_world (snd (process_mr_for_notification slack_down_env pending_record fresh_world)))
   \<and> \<not> fst (process_mr_for_notification slack_down_env pending_record fresh_world)
   \<and> files (snd (process_mr_for_notification slack_down_env pending_record fresh_world))
       = files fresh_world
   \<and> should_notify slack_down_env
        (snd (process_mr_for_notification slack_down_env pending_record fresh_world)) ''web-42''"
proof -
  let ?m = "''Please review Bea: https://gl/web/42 (ty)''"
  let ?w1 = "snd (process_mr_for_notification quiet_env pending_record fresh_world)"
  let ?w2 = "snd (process_mr_for_notification slack_down_env pending_record fresh_world)"
  have ev1: "new_events fresh_world ?w1
       = [SendMessage ?m True, WriteMarker ''notified_web-42.date'' ''2026-11-04'' True]"
    unfolding new_events_def run_quiet by (simp add: fresh_world_def)
  have ev2: "new_events fresh_world ?w2 = [SendMessage ?m False]"
    unfolding new_events_def run_slack_down by (simp add: fresh_world_def)
  have in1: "SendMessage ?m True \<in> set (new_events fresh_world ?w1)" by (simp add: ev1)
  have in2: "SendMessage ?m False \<in> set (new_events fresh_world ?w2)" by (simp add: ev2)
  have run2: "process_mr_for_notification slack_down_env pending_record fresh_world
                = (fst (process_mr_for_notification slack_down_env pending_record fresh_world), ?w2)"
    by simp
  from marker_written_only_after_confirmed_send [OF run2 in2]
  have failed: "\<not> fst (process_mr_for_notification slack_down_env pending_record fresh_world)"
    "files ?w2 = files fresh_world"
    "\<exists>m i. mr_json pending_record = Some m \<and> iid m = Some i
        \<and> should_notify slack_down_env ?w2 (mr_key_of pending_record i)"
    by blast+
  from failed(3) have "should_notify slack_down_env ?w2 (mr_key_of pending_record 42)"
    by (simp add: pending_record_def)
  with ev1 in1 in2 failed(1,2) show ?thesis by (simp add: key_42)
qed

text \<open>
  C8, as the code has it. For a record whose approval state has \<open>approved_by_all\<close> true,
  no evaluation calls \<open>_send_slack_message\<close>, whatever the marker says. If the record
  also carries a merge request with an iid and a project id, and its key is not marked
  today, the evaluation is exactly \<open>_mark_notified\<close> followed by \<open>return False\<close>; the
  marker then holds today's date whenever the write goes through.
\<close>

theorem approved_record_marked_without_message:
  assumes "approval d = Some a" and "approved_by_all a = Some True"
  shows "(\<forall>message sent.
            SendMessage message sent
              \<notin> set (new_events w (snd (process_mr_for_notification e d w))))
       \<and> (\<forall>m i. mr_json d = Some m \<and> iid m = Some i \<and> project_id d \<noteq> None
                 \<and> should_notify e w (mr_key_of d i)
             \<longrightarrow> process_mr_for_notification e d w
                   = (False, mark_notified e w (mr_key_of d i))
               \<and> (\<not> write_fails e (get_notification_date_file (mr_key_of d i))
                    \<longrightarrow> files (snd (process_mr_for_notification e d w))
                          (get_notification_date_file (mr_key_of d i))
                        = Some (isoformat (today e))))"
proof -
  from assms have approved: "get_or False (approved_by_all a)" by (simp add: get_or_def)
  have marked: "process_mr_for_notification e d w = (False, mark_notified e w (mr_key_of d i))"
    if "mr_json d = Some m" "iid m = Some i" "project_id d \<noteq> None"
      "should_notify e w (mr_key_of d i)" for m i
  proof -
    from that(3) obtain p where "project_id d = Some p" by auto
    from process_approved [OF that(1,2,4) this assms(1) approved] show ?thesis .
  qed
  have "process_mr_for_notification e d w = (False, w)
        \<or> (\<exists>k. process_mr_for_notification e d w = (False, mark_notified e w k))"
  proof (cases "\<exists>m i. mr_json d = Some m \<and> iid m = Some i \<and> project_id d \<noteq> None
                   \<and> should_notify e w (mr_key_of d i)")
    case True
    with marked show ?thesis by blast
  next
    case False
    show ?thesis
    proof (cases "mr_json d")
      case None
      then show ?thesis by (simp add: process_no_merge_request)
    next
      case (Some m)
      show ?thesis
      proof (cases "iid m")
        case None
        with Some show ?thesis by (simp add: process_no_iid)
      next
        case i: (Some i)
        show ?thesis
        proof (cases "should_notify e w (mr_key_of d i)")
          case True
          with False Some i have "project_id d = None" by simp
          with Some i show ?thesis by (simp add: process_no_project)
        next
          case False
          with Some i show ?thesis by (simp add: process_already_notified)
        qed
      qed
    qed
  qed
  then have silent: "\<forall>message sent.
      SendMessage message sent \<notin> set (new_events w (snd (process_mr_for_notification e d w)))"
    by (auto simp: new_events_def mark_notified_effect)
  from marked have "\<forall>m i. mr_json d = Some m \<and> iid m = Some i \<and> project_id d \<noteq> None
                 \<and> should_notify e w (mr_key_of d i)
             \<longrightarrow> process_mr_for_notification e d w
                   = (False, mark_notified e w (mr_key_of d i))
               \<and> (\<not> write_fails e (get_notification_date_file (mr_key_of d i))
                    \<longrightarrow> files (snd (process_mr_for_notification e d w))
                          (get_notification_date_file (mr_key_of d i))
                        = Some (isoformat (today e)))"
    by (simp add: mark_notified_effect)
  with silent show ?thesis by blast
qed

theorem approved_record_marked_without_message_witness:
  "approval approved_record
     = Some \<lparr>approved_by_all = Some True, approved_except_coverage = Some False,
             needs_coverage_check = Some False\<rparr>
   \<and> mr_json approved_record = Some \<lparr>iid = Some 42, web_url = Some ''https://gl/web/42''\<rparr>
   \<and> project_id approved_record \<noteq> None
   \<and> should_notify quiet_env fresh_world (mr_key_of approved_record 42)
   \<and> \<not> write_fails quiet_env (get_notification_date_file (mr_key_of approved_record 42))
   \<and> process_mr_for_notification quiet_env approved_record fresh_world
       = (False, mark_notified quiet_env fresh_world (mr_key_of approved_record 42))
   \<and> files (snd (process_mr_for_notification quiet_env approved_record fresh_world))
        (get_notification_date_file (mr_key_of approved_record 42))
       = Some (isoformat (today quiet_env))
   \<and> new_events fresh_world (snd (process_mr_for_notification quiet_env approved_record fresh_world))
       = [WriteMarker ''notified_web-42.date'' ''2026-11-04'' True]"
proof -
  let ?a = "\<lparr>approved_by_all = Some True, approved_except_coverage = Some False,
             needs_coverage_check = Some False\<rparr>"
  let ?m = "\<lparr>iid = Some 42, web_url = Some ''https://gl/web/42''\<rparr>"
  have h1: "approval approved_record = Some ?a" and h2: "approved_by_all ?a = Some True"
    and h3: "mr_json approved_record = Some ?m" and h4: "iid ?m = Some 42"
    and h5: "project_id approved_record \<noteq> None"
    by (simp_all add: approved_record_def pending_record_def)
  have h6: "should_notify quiet_env fresh_world (mr_key_of approved_record 42)"
    by (simp add: should_notify_def fresh_world_def)
  have h7: "\<not> write_fails quiet_env (get_notification_date_file (mr_key_of approved_record 42))"
    by (simp add: quiet_env_def)
  have ev: "new_events fresh_world
              (snd (process_mr_for_notification quiet_env approved_record fresh_world))
            = [WriteMarker ''notified_web-42.date'' ''2026-11-04'' True]"
    unfolding new_events_def run_approved by (simp add: fresh_world_def)
  from approved_record_marked_without_message [OF h1 h2, of fresh_world quiet_env]
    h3 h4 h5 h6 h7
  have "process_mr_for_notification quiet_env approved_record fresh_world
          = (False, mark_notified quiet_env fresh_world (mr_key_of approved_record 42))
        \<and> files (snd (process_mr_for_notification quiet_env approved_record fresh_world))
            (get_notification_date_file (mr_key_of approved_record 42))
          = Some (isoformat (today quiet_env))"
    by blast
  with h1 h3 h5 h6 h7 ev show ?thesis by blast
qed

text \<open>
  The claim C8 as it is written fails for an approved record that lacks \<open>project_id\<close>
  (the gate returns before the approval test) and under a state directory that cannot be
  written (the failed write is only logged): in both, the key is not marked today, and no
  marker holds today's date afterwards.
\<close>

theorem approved_record_not_marked_counterexample:
  "approved_by_all (the (approval approved_record_without_project)) = Some True
   \<and> mr_key_of approved_record_without_project 42 = ''web-42''
   \<and> get_notification_date_file ''web-42'' = ''notified_web-42.date''
   \<and> should_notify quiet_env fresh_world ''web-42''
   \<and> files (snd (process_mr_for_notification quiet_env approved_record_without_project
                    fresh_world)) ''notified_web-42.date'' = None
   \<and> trace (snd (process_mr_for_notification quiet_env approved_record_without_project
                    fresh_world)) = []
   \<and> approved_by_all (the (approval approved_record)) = Some True
   \<and> mr_key_of approved_record 42 = ''web-42''
   \<and> should_notify unwritable_env fresh_world ''web-42''
   \<and> files (snd (process_mr_for_notification unwritable_env approved_record fresh_world))
        ''notified_web-42.date'' = None"
  unfolding run_approved_without_project run_approved_unwritable
  by (simp add: run_gate a_day_def quiet_env_def unwritable_env_def fresh_world_def
        pending_record_def approved_record_def approved_record_without_project_def)

text \<open>
  C2, as the code has it. Two evaluations of the same record on the same day send at most
  one message between them, provided the marker write of the first evaluation goes through
  and the marker can be read at the second. What the network answers may differ between
  the two.
\<close>

theorem at_most_one_message_per_day:
  assumes "mr_json d = Some m" and "iid m = Some i"
    and "today e2 = today e1"
    and "\<not> write_fails e1 (get_notification_date_file (mr_key_of d i))"
    and "\<not> read_fails e2 (get_notification_date_file (mr_key_of d i))"
  shows "length (sent_messages
                   (snd (process_mr_for_notification e2 d
                           (snd (process_mr_for_notification e1 d w)))))
           \<le> length (sent_messages w) + 1"
proof -
  let ?r1 = "fst (process_mr_for_notification e1 d w)"
  let ?w1 = "snd (process_mr_for_notification e1 d w)"
  let ?r2 = "fst (process_mr_for_notification e2 d ?w1)"
  let ?w2 = "snd (process_mr_for_notification e2 d ?w1)"
  from process_outcome [of e1 d w] obtain adds1 where
    first: "outcome_shape e1 d w ?r1 ?w1 adds1" by blast
  from process_outcome [of e2 d ?w1] obtain adds2 where
    second: "outcome_shape e2 d ?w1 ?r2 ?w2 adds2" by blast
  note n1 = sent_messages_shape [OF first] and n2 = sent_messages_shape [OF second]
  show ?thesis
  proof (cases ?r1)
    case False
    with n1 n2 show ?thesis by simp
  next
    case True
    with first assms(1,2) have "files ?w1 = files (mark_notified e1 w (mr_key_of d i))"
      by (auto simp: outcome_shape_def)
    from should_notify_after_mark [OF assms(4,5,3) this]
    have "\<not> should_notify e2 ?w1 (mr_key_of d i)" .
    from process_already_notified [OF assms(1,2) this] have "?w2 = ?w1" by simp
    with n1 show ?thesis by simp
  qed
qed

theorem at_most_one_message_per_day_witness:
  "mr_json pending_record = Some \<lparr>iid = Some 42, web_url = Some ''https://gl/web/42''\<rparr>
   \<and> today quiet_env = today quiet_env
   \<and> \<not> write_fails quiet_env (get_notification_date_file (mr_key_of pending_record 42))
   \<and> \<not> read_fails quiet_env (get_notification_date_file (mr_key_of pending_record 42))
   \<and> sent_messages fresh_world = []
   \<and> sent_messages (snd (process_mr_for_notification quiet_env pending_record fresh_world))
       = [''Please review Bea: https://gl/web/42 (ty)'']
   \<and> length (sent_messages
                (snd (process_mr_for_notification quiet_env pending_record
                        (snd (process_mr_for_notification quiet_env pending_record
                                fresh_world)))))
       \<le> 1"
proof -
  let ?m = "\<lparr>iid = Some 42, web_url = Some ''https://gl/web/42''\<rparr>"
  have h1: "mr_json pending_record = Some ?m" and h2: "iid ?m = Some 42"
    by (simp_all add: pending_record_def)
  have h3: "today quiet_env = today quiet_env" by simp
  have h4: "\<not> write_fails quiet_env (get_notification_date_file (mr_key_of pending_record 42))"
    and h5: "\<not> read_fails quiet_env (get_notification_date_file (mr_key_of pending_record 42))"
    by (simp_all add: quiet_env_def)
  have s0: "sent_messages fresh_world = []"
    by (simp add: sent_messages_def fresh_world_def)
  have s1: "sent_messages (snd (process_mr_for_notification quiet_env pending_record fresh_world))
              = [''Please review Bea: https://gl/web/42 (ty)'']"
    unfolding run_quiet by (simp add: sent_messages_def)
  from at_most_one_message_per_day [OF h1 h2 h3 h4 h5, of fresh_world] s0
  have "length (sent_messages
                (snd (process_mr_for_notification quiet_env pending_record
                        (snd (process_mr_for_notification quiet_env pending_record
                                fresh_world)))))
       \<le> 1" by simp
  with h1 h3 h4 h5 s0 s1 show ?thesis by blast
qed

text \<open>
  The claim C2 as it is written fails when the state directory cannot be written (the send
  is confirmed, the marker write fails and is only logged) and when the marker file
  cannot be read (the read raises and \<open>_should_notify\<close> answers true): in both, the
  second evaluation of the same record on the same day sends the same message again.
\<close>

theorem two_messages_in_one_day_counterexample:
  "sent_messages fresh_world = []
   \<and> sent_messages
       (snd (process_mr_for_notification unwritable_env pending_record
               (snd (process_mr_for_notification unwritable_env pending_record fresh_world))))
     = [''Please review Bea: https://gl/web/42 (ty)'',
        ''Please review Bea: https://gl/web/42 (ty)'']
   \<and> sent_messages marked_world = []
   \<and> sent_messages
       (snd (process_mr_for_notification unreadable_env pending_record
               (snd (process_mr_for_notification unreadable_env pending_record marked_world))))
     = [''Please review Bea: https://gl/web/42 (ty)'',
        ''Please review Bea: https://gl/web/42 (ty)'']"
  unfolding run_unwritable run_unreadable snd_conv run_unwritable_again run_unreadable_again
  by (simp add: sent_messages_def fresh_world_def marked_world_def)

section \<open>Properties of the list of display entries\<close>

lemma clear_repo_filter:
  "\<forall>x\<in>set data. repo x \<noteq> None \<Longrightarrow>
     clear_repo rname data = (None, filter (\<lambda>x. repo x \<noteq> Some rname) data)"
  by (induction data) auto

lemma append_items_all:
  "\<forall>x\<in>set new_items. mr x \<noteq> None \<Longrightarrow>
     append_items rname new_items data =
       (None, data @ map (\<lambda>x. x\<lparr>key := Some (rname @ ''-'' @ the (mr x))\<rparr>) new_items)"
  by (induction new_items arbitrary: data) auto

lemma key_update_keeps [simp]:
  "mr_number (x\<lparr>key := k\<rparr>) = mr_number x"
  "sort_rank (x\<lparr>key := k\<rparr>) = sort_rank x"
  "entry_id (x\<lparr>key := k\<rparr>) = entry_id x"
  by (simp_all add: mr_number_def sort_rank_def entry_id_def)

lemma distinct_map_sort_key: "distinct (map f (sort_key g xs)) = distinct (map f xs)"
  by (simp add: distinct_map)

lemma sort_data_sorted:
  "sort_data data = (None, data') \<Longrightarrow> sorted (map sort_rank data')"
  by (auto simp: sort_data_def split: if_splits)

lemma sort_data_all_numbers:
  "\<forall>x\<in>set data. \<not> isl (mr_number x) \<Longrightarrow> sort_data data = (None, sort_key sort_rank data)"
  by (auto simp: sort_data_def list_ex_iff)

lemma update_repo_data_tidy:
  assumes "tidy data" and "well_formed_call (rname, new_items)"
  shows "\<exists>data'. update_repo_data rname new_items data = (None, data') \<and> tidy data'"
proof -
  let ?kept = "filter (\<lambda>x. repo x \<noteq> Some rname) data"
  let ?added = "map (\<lambda>x. x\<lparr>key := Some (rname @ ''-'' @ the (mr x))\<rparr>) new_items"
  from assms(1) have cleared: "clear_repo rname data = (None, ?kept)"
    by (simp add: tidy_def clear_repo_filter)
  from assms(2) have new: "\<forall>x\<in>set new_items. repo x = Some rname \<and> mr x \<noteq> None
      \<and> \<not> isl (mr_number x)" and new_distinct: "distinct (map mr new_items)"
    by (simp_all add: well_formed_call_def list_all_iff)
  from new have appended: "append_items rname new_items ?kept = (None, ?kept @ ?added)"
    by (simp add: append_items_all)
  have numbers: "\<forall>x\<in>set (?kept @ ?added). repo x \<noteq> None \<and> mr x \<noteq> None \<and> \<not> isl (mr_number x)"
    using assms(1) new by (auto simp: tidy_def)
  then have sorted_result: "sort_data (?kept @ ?added) = (None, sort_key sort_rank (?kept @ ?added))"
    by (simp add: sort_data_all_numbers)
  have ids_added: "map entry_id ?added = map (\<lambda>x. (Some rname, mr x)) new_items"
    using new by (simp add: entry_id_def)
  have d_added: "distinct (map entry_id ?added)"
    unfolding ids_added using new_distinct by (simp add: distinct_map inj_on_def)
  from assms(1) have d_kept: "distinct (map entry_id ?kept)"
    by (simp add: tidy_def distinct_map_filter)
  have apart: "set (map entry_id ?kept) \<inter> set (map entry_id ?added) = {}"
    unfolding ids_added by (auto simp: entry_id_def)
  from d_kept d_added apart have "distinct (map entry_id (?kept @ ?added))" by simp
  then have "distinct (map entry_id (sort_key sort_rank (?kept @ ?added)))"
    by (simp only: distinct_map_sort_key)
  moreover have "sorted (map sort_rank (sort_key sort_rank (?kept @ ?added)))"
    by (rule sorted_sort_key)
  moreover from numbers
  have "\<forall>x\<in>set (sort_key sort_rank (?kept @ ?added)).
          repo x \<noteq> None \<and> mr x \<noteq> None \<and> \<not> isl (mr_number x)"
    by (simp only: set_sort)
  ultimately have "tidy (sort_key sort_rank (?kept @ ?added))"
    unfolding tidy_def by blast
  moreover from cleared appended sorted_result
  have "update_repo_data rname new_items data = (None, sort_key sort_rank (?kept @ ?added))"
    by (simp add: update_repo_data_def)
  ultimately show ?thesis by blast
qed

lemma outcomes_after_tidy:
  assumes "tidy data" and "list_all well_formed_call calls"
  shows "\<forall>outcome\<in>set (outcomes_after data calls). fst outcome = None \<and> tidy (snd outcome)"
  using assms
proof (induction calls arbitrary: data)
  case Nil
  then show ?case by simp
next
  case (Cons call calls)
  obtain rname new_items where call: "call = (rname, new_items)" by (cases call)
  from Cons.prems call have wf: "well_formed_call (rname, new_items)"
    and rest: "list_all well_formed_call calls" by simp_all
  from update_repo_data_tidy [OF Cons.prems(1) wf] obtain data' where
    step: "update_repo_data rname new_items data = (None, data')" and tidy': "tidy data'"
    by blast
  from Cons.IH [OF tidy' rest] step tidy' call show ?case by (simp add: Let_def)
qed

lemma update_repo_data_sorted:
  "update_repo_data rname new_items data = (None, data') \<Longrightarrow> sorted (map sort_rank data')"
  by (auto simp: update_repo_data_def split: prod.splits option.splits dest: sort_data_sorted)

lemma outcomes_after_sorted:
  "\<forall>outcome\<in>set (outcomes_after data calls).
     fst outcome = None \<longrightarrow> sorted (map sort_rank (snd outcome))"
proof (induction calls arbitrary: data)
  case Nil
  then show ?case by simp
next
  case (Cons call calls)
  obtain rname new_items where call: "call = (rname, new_items)" by (cases call)
  obtain err data' where step: "update_repo_data rname new_items data = (err, data')"
    by (cases "update_repo_data rname new_items data")
  from update_repo_data_sorted [of rname new_items data data'] step
  have "err = None \<longrightarrow> sorted (map sort_rank data')" by simp
  with Cons.IH [of data'] call step show ?case by (simp add: Let_def)
qed

text \<open>
  C1, as the code has it. After every call that returns without raising, the list is
  ascending by \<open>(repo, number)\<close>, the number being the label without its first
  character, 0 when nothing is left. And on a fresh model, for every sequence of calls in
  which each new entry names the repository of its call and has a label with a number that
  \<open>int\<close> accepts, and no two new entries of one call share a label: no call raises, and
  after each call no two entries of the list share \<open>(repo, mr)\<close>.
\<close>

theorem update_repo_data_distinct_sorted:
  "(\<forall>outcome\<in>set (outcomes_after data calls).
      fst outcome = None \<longrightarrow> sorted (map sort_rank (snd outcome)))
   \<and> (list_all well_formed_call calls \<longrightarrow>
        (\<forall>outcome\<in>set (outcomes_after [] calls).
           fst outcome = None
           \<and> distinct (map entry_id (snd outcome))
           \<and> sorted (map sort_rank (snd outcome))
           \<and> (\<forall>x\<in>set (snd outcome). \<not> isl (mr_number x))))"
proof -
  have fresh: "tidy ([] :: 'a entry_scheme list)" by (simp add: tidy_def)
  have "\<forall>outcome\<in>set (outcomes_after [] calls).
           fst outcome = None
           \<and> distinct (map entry_id (snd outcome))
           \<and> sorted (map sort_rank (snd outcome))
           \<and> (\<forall>x\<in>set (snd outcome). \<not> isl (mr_number x))"
    if "list_all well_formed_call calls"
    using outcomes_after_tidy [OF fresh that] by (auto simp: tidy_def)
  with outcomes_after_sorted [of data calls] show ?thesis by blast
qed

lemmas run_model =
  update_repo_data_def sort_data_def mr_number_def sort_rank_def get_or_def py_int_def
  unsigned_value_def is_digit_def digit_value_def is_c_space_def new_entry_def
  shown_entry_def entry_id_def Let_def

theorem update_repo_data_distinct_sorted_witness:
  "list_all well_formed_call three_refreshes
   \<and> outcomes_after [] three_refreshes =
       [(None, [shown_entry ''web'' ''!2'', shown_entry ''web'' ''!10'']),
        (None, [shown_entry ''api'' ''!7'', shown_entry ''web'' ''!2'',
                shown_entry ''web'' ''!10'']),
        (None, [shown_entry ''api'' ''!7'', shown_entry ''web'' ''!3''])]
   \<and> distinct (map entry_id [shown_entry ''api'' ''!7'', shown_entry ''web'' ''!2'',
                              shown_entry ''web'' ''!10''])
   \<and> sorted (map sort_rank [shown_entry ''api'' ''!7'', shown_entry ''web'' ''!2'',
                              shown_entry ''web'' ''!10''])
   \<and> map sort_rank [shown_entry ''api'' ''!7'', shown_entry ''web'' ''!2'',
                       shown_entry ''web'' ''!10'']
       = [(''api'', 7), (''web'', 2), (''web'', 10)]"
proof -
  have h: "list_all well_formed_call three_refreshes"
    by (simp add: three_refreshes_def well_formed_call_def run_model)
  have run: "outcomes_after [] three_refreshes =
       [(None, [shown_entry ''web'' ''!2'', shown_entry ''web'' ''!10'']),
        (None, [shown_entry ''api'' ''!7'', shown_entry ''web'' ''!2'',
                shown_entry ''web'' ''!10'']),
        (None, [shown_entry ''api'' ''!7'', shown_entry ''web'' ''!3''])]"
    by (simp add: three_refreshes_def run_model)
  have ranks: "map sort_rank [shown_entry ''api'' ''!7'', shown_entry ''web'' ''!2'',
                              shown_entry ''web'' ''!10'']
       = [(''api'', 7), (''web'', 2), (''web'', 10)]"
    by (simp add: run_model)
  from update_repo_data_distinct_sorted [of "[]" three_refreshes] h
  have "\<forall>outcome\<in>set (outcomes_after [] three_refreshes).
           fst outcome = None
           \<and> distinct (map entry_id (snd outcome))
           \<and> sorted (map sort_rank (snd outcome))
           \<and> (\<forall>x\<in>set (snd outcome). \<not> isl (mr_number x))"
    by blast
  then have "distinct (map entry_id [shown_entry ''api'' ''!7'', shown_entry ''web'' ''!2'',
                                shown_entry ''web'' ''!10''])
        \<and> sorted (map sort_rank [shown_entry ''api'' ''!7'', shown_entry ''web'' ''!2'',
                                   shown_entry ''web'' ''!10''])"
    unfolding run by simp
  with h run ranks show ?thesis by blast
qed

text \<open>
  The claim C1 as it is written fails for a new-entry list that repeats a merge request
  (both copies are appended, nothing removes one), for a new entry that names another
  repository than the call (the next call for the same repository does not clear it and
  appends it again), and for a label whose number \<open>int\<close> rejects (the sort raises
  \<open>ValueError\<close> and leaves the list as appended, here in the order 2, x, 1).
\<close>

theorem update_repo_data_counterexample:
  "outcomes_after [] [(''web'', [new_entry ''web'' ''!1'', new_entry ''web'' ''!1''])]
     = [(None, [shown_entry ''web'' ''!1'', shown_entry ''web'' ''!1''])]
   \<and> \<not> distinct (map entry_id [shown_entry ''web'' ''!1'', shown_entry ''web'' ''!1''])
   \<and> outcomes_after [] [(''web'', [new_entry ''api'' ''!1'']), (''web'', [new_entry ''api'' ''!1''])]
     = [(None, [misfiled_entry]), (None, [misfiled_entry, misfiled_entry])]
   \<and> \<not> distinct (map entry_id [misfiled_entry, misfiled_entry])
   \<and> outcomes_after []
        [(''web'', [new_entry ''web'' ''!2'', new_entry ''web'' ''!x'', new_entry ''web'' ''!1''])]
     = [(Some ValueError,
         [shown_entry ''web'' ''!2'', shown_entry ''web'' ''!x'', shown_entry ''web'' ''!1''])]
   \<and> map sort_rank
        [shown_entry ''web'' ''!2'', shown_entry ''web'' ''!x'', shown_entry ''web'' ''!1'']
     = [(''web'', 2), (''web'', 0), (''web'', 1)]
   \<and> \<not> sorted (map sort_rank
        [shown_entry ''web'' ''!2'', shown_entry ''web'' ''!x'', shown_entry ''web'' ''!1''])"
  by (simp add: run_model misfiled_entry_def)

end
